theory Spec2Isabelle
  imports Main
begin

section \<open>JavaScript values used by the bot\<close>

subsection \<open>Strings\<close>

text \<open>
  A JavaScript string is modelled by the \<^typ>\<open>string\<close> of its UTF-8 bytes. The
  characters the source writes outside ASCII (the cross mark and the check mark of the
  result dialogs) are therefore byte sequences, and so are the white space characters
  beyond ASCII that \<^verbatim>\<open>String.prototype.trim\<close> and \<^verbatim>\<open>parseInt\<close> skip.
\<close>

definition cross_mark :: string where
  "cross_mark = [CHR 0xE2, CHR 0x9D, CHR 0x8C]"

definition check_mark :: string where
  "check_mark = [CHR 0xE2, CHR 0x9C, CHR 0x85]"

text \<open>
  ECMAScript's WhiteSpace and LineTerminator code points: U+0009..U+000D, U+0020, U+00A0,
  U+1680, U+2000..U+200A, U+2028, U+2029, U+202F, U+205F, U+3000 and U+FEFF.
\<close>

definition white_space :: "string list" where
  "white_space =
     [[CHR 0x09], [CHR 0x0A], [CHR 0x0B], [CHR 0x0C], [CHR 0x0D], [CHR 0x20],
      [CHR 0xC2, CHR 0xA0], [CHR 0xE1, CHR 0x9A, CHR 0x80],
      [CHR 0xE2, CHR 0x80, CHR 0x80], [CHR 0xE2, CHR 0x80, CHR 0x81],
      [CHR 0xE2, CHR 0x80, CHR 0x82], [CHR 0xE2, CHR 0x80, CHR 0x83],
      [CHR 0xE2, CHR 0x80, CHR 0x84], [CHR 0xE2, CHR 0x80, CHR 0x85],
      [CHR 0xE2, CHR 0x80, CHR 0x86], [CHR 0xE2, CHR 0x80, CHR 0x87],
      [CHR 0xE2, CHR 0x80, CHR 0x88], [CHR 0xE2, CHR 0x80, CHR 0x89],
      [CHR 0xE2, CHR 0x80, CHR 0x8A], [CHR 0xE2, CHR 0x80, CHR 0xA8],
      [CHR 0xE2, CHR 0x80, CHR 0xA9], [CHR 0xE2, CHR 0x80, CHR 0xAF],
      [CHR 0xE2, CHR 0x81, CHR 0x9F], [CHR 0xE3, CHR 0x80, CHR 0x80],
      [CHR 0xEF, CHR 0xBB, CHR 0xBF]]"

text \<open>The number of bytes of the first of \<open>seqs\<close> that \<open>s\<close> starts with; 0 when none does.\<close>

definition leading :: "string list \<Rightarrow> string \<Rightarrow> nat" where
  "leading seqs s =
     (case filter (\<lambda>w. take (length w) s = w) seqs of [] \<Rightarrow> 0 | w # _ \<Rightarrow> length w)"

function strip :: "string list \<Rightarrow> string \<Rightarrow> string" where
  "strip seqs s = (if leading seqs s = 0 then s else strip seqs (drop (leading seqs s) s))"
  by pat_completeness auto
termination
proof (relation "measure (\<lambda>(seqs, s). length s)")
  show "wf (measure (\<lambda>(seqs, s). length s))" by simp
next
  fix seqs :: "string list" and s :: string
  assume a: "leading seqs s \<noteq> 0"
  have "s \<noteq> []"
  proof
    assume "s = []"
    then have "filter (\<lambda>w. take (length w) s = w) seqs = replicate (length (filter (\<lambda>w. w = []) seqs)) []"
      by (induction seqs) auto
    then have "leading seqs s = 0"
      by (cases "length (filter (\<lambda>w. w = []) seqs)") (simp_all add: leading_def)
    with a show False by simp
  qed
  with a show "((seqs, drop (leading seqs s) s), (seqs, s)) \<in> measure (\<lambda>(seqs, s). length s)"
    by simp
qed

declare strip.simps [simp del]

definition trimStart :: "string \<Rightarrow> string" where
  "trimStart s = strip white_space s"

definition trimEnd :: "string \<Rightarrow> string" where
  "trimEnd s = rev (strip (map rev white_space) (rev s))"

definition trim :: "string \<Rightarrow> string" where
  "trim s = trimEnd (trimStart s)"

subsection \<open>Numbers\<close>

text \<open>
  The only numbers the bot computes are results of \<^verbatim>\<open>parseInt\<close> and small loop
  counters: integer-valued doubles, the two infinities and NaN. \<open>Num n\<close> is the double
  whose value is the integer \<open>n\<close>; negative zero is identified with \<open>Num 0\<close> (both are
  falsy and both print as \<^verbatim>\<open>0\<close>).
\<close>

datatype jsnum = NaN | Num int | PosInf | NegInf

text \<open>
  Rounding a non-negative integer to the nearest double, ties to even: \<open>mantissa_unit m 1\<close>
  is the least power of two \<open>p\<close> with \<open>m div p < 2 ^ 53\<close>, the weight of the last bit of
  a 53-bit mantissa. \<open>None\<close> is the overflow to Infinity.
\<close>

function mantissa_unit :: "int \<Rightarrow> int \<Rightarrow> int" where
  "mantissa_unit m p = (if p \<le> 0 \<or> m div p < 2 ^ 53 then p else mantissa_unit m (2 * p))"
  by pat_completeness auto
termination
proof (relation "measure (\<lambda>(m, p). nat (m div p))")
  show "wf (measure (\<lambda>(m, p). nat (m div p)))" by simp
next
  fix m p :: int
  assume "\<not> (p \<le> 0 \<or> m div p < 2 ^ 53)"
  then have p: "0 < p" and big: "(2::int) ^ 53 \<le> m div p" by auto
  have pos: "0 < m div p"
  proof -
    have "(0::int) < 2 ^ 53" by simp
    with big show ?thesis by linarith
  qed
  have "m div (p * 2) = (m div p) div 2"
    by (rule zdiv_zmult2_eq) simp
  then have "m div (2 * p) = (m div p) div 2"
    by (simp add: mult.commute)
  with pos have "m div (2 * p) < m div p" and "0 \<le> m div (2 * p)"
    by simp_all
  then have "nat (m div (2 * p)) < nat (m div p)"
    by linarith
  then show "((m, 2 * p), (m, p)) \<in> measure (\<lambda>(m, p). nat (m div p))"
    by simp
qed

declare mantissa_unit.simps [simp del]

definition round_to_double :: "int \<Rightarrow> int option" where
  "round_to_double m =
     (let p = mantissa_unit m 1;
          q = m div p;
          r = m mod p;
          q' = (if p < 2 * r \<or> (2 * r = p \<and> odd q) then q + 1 else q);
          v = q' * p
      in if v < 2 ^ 1024 then Some v else None)"

subsubsection \<open>parseInt(string, 10)\<close>

definition digit_chars :: string where
  "digit_chars = ''0123456789''"

definition is_digit :: "char \<Rightarrow> bool" where
  "is_digit c = (c \<in> set digit_chars)"

definition digit_value :: "char \<Rightarrow> int" where
  "digit_value c = int (length (takeWhile (\<lambda>d. d \<noteq> c) digit_chars))"

text \<open>The integer that a string of decimal digits denotes, most significant digit first.\<close>

fun digits_value :: "int \<Rightarrow> string \<Rightarrow> int" where
  "digits_value acc [] = acc"
| "digits_value acc (c # cs) = digits_value (10 * acc + digit_value c) cs"

text \<open>
  ECMAScript's parseInt with radix 10: skip leading white space, read an optional sign,
  take the longest prefix of decimal digits; NaN when it is empty, else the signed value
  as a double.
\<close>

definition parseInt :: "string \<Rightarrow> jsnum" where
  "parseInt inputString =
     (let S = trimStart inputString;
          negative = (case S of [] \<Rightarrow> False | c # _ \<Rightarrow> c = CHR ''-'');
          S' = (case S of [] \<Rightarrow> []
                | c # cs \<Rightarrow> if c = CHR ''+'' \<or> c = CHR ''-'' then cs else S);
          Z = takeWhile is_digit S'
      in if Z = [] then NaN
         else case round_to_double (digits_value 0 Z) of
                None \<Rightarrow> if negative then NegInf else PosInf
              | Some v \<Rightarrow> Num (if negative then - v else v))"

subsubsection \<open>Number to string\<close>

function decimal :: "int \<Rightarrow> string" where
  "decimal n =
     (if n < 10 then [digit_chars ! nat n]
      else decimal (n div 10) @ [digit_chars ! nat (n mod 10)])"
  by pat_completeness auto
termination
  by (relation "measure nat") auto

declare decimal.simps [simp del]

text \<open>
  Number::toString of a double \<open>x \<ge> 2 ^ 53\<close>: the decimal digits \<open>s\<close> (as few as
  possible, at most 17) and the power of ten \<open>u\<close> such that \<open>s * u\<close> rounds to \<open>x\<close>.
  \<open>pow10_above x 1\<close> is the least power of ten above \<open>x\<close>; \<open>digits_at x tk P\<close> looks for
  \<open>s\<close> with \<open>tk div 10 \<le> s < tk\<close> and unit \<open>P div tk\<close>, preferring the value closest to
  \<open>x\<close> and then the even one.
\<close>

function pow10_above :: "int \<Rightarrow> int \<Rightarrow> int" where
  "pow10_above x p = (if p \<le> 0 \<or> x < p then p else pow10_above x (10 * p))"
  by pat_completeness auto
termination
  by (relation "measure (\<lambda>(x, p). nat (x + 1 - p))") auto

declare pow10_above.simps [simp del]

definition digits_at :: "int \<Rightarrow> int \<Rightarrow> int \<Rightarrow> int option" where
  "digits_at x tk P =
     (if P < tk then None
      else let u = P div tk;
               lo = x div u;
               ok = (\<lambda>s. tk div 10 \<le> s \<and> s < tk \<and> round_to_double (s * u) = Some x)
           in if ok lo \<and> ok (lo + 1)
              then (if x - lo * u < (lo + 1) * u - x then Some lo
                    else if (lo + 1) * u - x < x - lo * u then Some (lo + 1)
                    else if even lo then Some lo else Some (lo + 1))
              else if ok lo then Some lo
              else if ok (lo + 1) then Some (lo + 1)
              else None)"

fun shortest_digits :: "nat \<Rightarrow> int \<Rightarrow> int \<Rightarrow> int \<Rightarrow> (int \<times> int) option" where
  "shortest_digits 0 x P tk = None"
| "shortest_digits (Suc fuel) x P tk =
     (case digits_at x tk P of
        Some s \<Rightarrow> Some (s, P div tk)
      | None \<Rightarrow>
          (case digits_at x tk (10 * P) of
             Some s \<Rightarrow> Some (s, 10 * P div tk)
           | None \<Rightarrow> shortest_digits fuel x P (10 * tk)))"

text \<open>
  Below \<open>2 ^ 53\<close> every integer is a double and prints as its decimal numeral. Above,
  the shortest digits are padded with zeros up to 21 digits and printed in exponent
  notation beyond.
\<close>

definition double_to_string :: "int \<Rightarrow> string" where
  "double_to_string x =
     (if x < 2 ^ 53 then decimal x
      else case shortest_digits 17 x (pow10_above x 1) 10 of
        None \<Rightarrow> decimal x
      | Some (s, u) \<Rightarrow>
          if s * u < 10 ^ 21 then decimal (s * u)
          else let ds = decimal s;
                   e = int (length (decimal (s * u))) - 1
               in (if length ds = 1 then ds else hd ds # CHR ''.'' # tl ds)
                  @ ''e+'' @ decimal e)"

fun Number_toString :: "jsnum \<Rightarrow> string" where
  "Number_toString NaN = ''NaN''"
| "Number_toString PosInf = ''Infinity''"
| "Number_toString NegInf = ''-Infinity''"
| "Number_toString (Num n) =
     (if n < 0 then CHR ''-'' # double_to_string (- n) else double_to_string n)"

subsubsection \<open>Math.min, Math.max and the falsy default\<close>

fun Math_min :: "jsnum \<Rightarrow> jsnum \<Rightarrow> jsnum" where
  "Math_min NaN _ = NaN"
| "Math_min _ NaN = NaN"
| "Math_min NegInf _ = NegInf"
| "Math_min _ NegInf = NegInf"
| "Math_min PosInf b = b"
| "Math_min a PosInf = a"
| "Math_min (Num a) (Num b) = Num (min a b)"

fun Math_max :: "jsnum \<Rightarrow> jsnum \<Rightarrow> jsnum" where
  "Math_max NaN _ = NaN"
| "Math_max _ NaN = NaN"
| "Math_max PosInf _ = PosInf"
| "Math_max _ PosInf = PosInf"
| "Math_max NegInf b = b"
| "Math_max a NegInf = a"
| "Math_max (Num a) (Num b) = Num (max a b)"

text \<open>\<^verbatim>\<open>x || d\<close> on numbers: NaN and zero are falsy.\<close>

fun num_or :: "jsnum \<Rightarrow> jsnum \<Rightarrow> jsnum" where
  "num_or NaN d = d"
| "num_or (Num n) d = (if n = 0 then d else Num n)"
| "num_or x d = x"

text \<open>\<^verbatim>\<open>s || d\<close> on a string that may be null or undefined: the empty string is falsy.\<close>

fun str_or :: "string option \<Rightarrow> string \<Rightarrow> string" where
  "str_or None d = d"
| "str_or (Some []) d = d"
| "str_or (Some s) d = s"

section \<open>Configuration\<close>

text \<open>
  \<^verbatim>\<open>CLIENTS\<close> is the object parsed from \<^verbatim>\<open>CLIENTS_JSON\<close>, kept as the list of
  its entries in the order \<^verbatim>\<open>Object.keys\<close> enumerates them. An entry is an object
  whose \<^verbatim>\<open>owner\<close>, \<^verbatim>\<open>repo\<close> and \<^verbatim>\<open>testsPath\<close> are strings where it has them; a
  property it does not have reads as undefined (\<open>None\<close>). \<^verbatim>\<open>DEFAULT_BRANCH\<close> is read
  once from the environment.
\<close>

record client_cfg =
  owner :: "string option"
  repo :: "string option"
  testsPath :: "string option"

record env =
  CLIENTS :: "(string \<times> client_cfg) list"
  DEFAULT_BRANCH :: string

text \<open>
  \<^verbatim>\<open>CLIENTS[clientKey]\<close>. The object is a plain one, so a key it does not have
  itself is looked up in \<^verbatim>\<open>Object.prototype\<close>: for the twelve names found there the
  value is a function (or, for \<^verbatim>\<open>__proto__\<close>, the prototype itself), which is truthy
  and has none of the three properties. For any other key the value is undefined.
\<close>

definition Object_prototype_names :: "string list" where
  "Object_prototype_names =
     [''constructor'', ''__defineGetter__'', ''__defineSetter__'', ''hasOwnProperty'',
      ''__lookupGetter__'', ''__lookupSetter__'', ''isPrototypeOf'', ''propertyIsEnumerable'',
      ''toString'', ''valueOf'', ''__proto__'', ''toLocaleString'']"

definition inherited :: client_cfg where
  "inherited = \<lparr>owner = None, repo = None, testsPath = None\<rparr>"

definition CLIENTS_get :: "env \<Rightarrow> string \<Rightarrow> client_cfg option" where
  "CLIENTS_get e k =
     (case map_of (CLIENTS e) k of
        Some cfg \<Rightarrow> Some cfg
      | None \<Rightarrow> if k \<in> set Object_prototype_names then Some inherited else None)"

text \<open>\<^verbatim>\<open>${x}\<close> in a template literal, for a string that may be undefined.\<close>

fun interpolate :: "string option \<Rightarrow> string" where
  "interpolate None = ''undefined''"
| "interpolate (Some s) = s"

definition default_branch :: "string option \<Rightarrow> string" where
  "default_branch GITHUB_DEFAULT_BRANCH = str_or GITHUB_DEFAULT_BRANCH ''main''"

section \<open>The remote file store\<close>

text \<open>
  What \<^verbatim>\<open>octokit.repos.getContent\<close> resolves to: \<^verbatim>\<open>res.data\<close> is an array for a
  directory, an object (with or without a \<^verbatim>\<open>sha\<close>) for a file, or missing. What it
  and \<^verbatim>\<open>createOrUpdateFileContents\<close> reject with: an error carrying \<^verbatim>\<open>status\<close>
  and \<^verbatim>\<open>message\<close>.
\<close>

datatype content_data = Array_data | Object_data "string option" | No_data

datatype request_error = Request_error (status: "int option") (message: string)

record getContent_params =
  get_owner :: "string option"
  get_repo :: "string option"
  get_path :: string
  get_ref :: string

text \<open>
  \<open>put_content\<close> is the text handed to \<^verbatim>\<open>githubWriteFile\<close>; the request carries its
  UTF-8 bytes in base64, an injective encoding that nothing here reads back.
\<close>

record write_params =
  put_owner :: "string option"
  put_repo :: "string option"
  put_path :: string
  put_message :: string
  put_content :: string
  put_branch :: string
  put_sha :: "string option"

text \<open>
  The remote calls a handler has issued so far, each with its outcome, oldest first. The
  store is any function from this history and the next request to an outcome: it may
  change between calls and fail at any of them.
\<close>

datatype event =
  Get getContent_params "request_error + content_data"
| Put write_params "request_error + unit"

record octokit =
  getContent :: "event list \<Rightarrow> getContent_params \<Rightarrow> request_error + content_data"
  createOrUpdateFileContents :: "event list \<Rightarrow> write_params \<Rightarrow> request_error + unit"

text \<open>The revision marker that \<^verbatim>\<open>githubGetFileSha\<close> makes of an outcome of getContent.\<close>

definition marker_of :: "request_error + content_data \<Rightarrow> request_error + string option" where
  "marker_of res =
     (case res of
        Inr Array_data \<Rightarrow> Inr (Some ''DIR'')
      | Inr (Object_data (Some (c # cs))) \<Rightarrow> Inr (Some (c # cs))
      | Inr _ \<Rightarrow> Inr None
      | Inl e \<Rightarrow> if status e = Some 404 then Inr None else Inl e)"

definition githubGetFileSha ::
  "octokit \<Rightarrow> getContent_params \<Rightarrow> event list \<Rightarrow> (request_error + string option) \<times> event list" where
  "githubGetFileSha oct params log =
     (let res = getContent oct log params
      in (marker_of res, log @ [Get params res]))"

definition githubWriteFile ::
  "octokit \<Rightarrow> write_params \<Rightarrow> event list \<Rightarrow> (request_error + unit) \<times> event list" where
  "githubWriteFile oct params log =
     (let res = createOrUpdateFileContents oct log params
      in (res, log @ [Put params res]))"

text \<open>\<^verbatim>\<open>!!sha\<close>: a marker is truthy when it is a non-empty string.\<close>

fun truthy :: "string option \<Rightarrow> bool" where
  "truthy (Some (c # cs)) = True"
| "truthy _ = False"

text \<open>\<^verbatim>\<open>sha || undefined\<close>: the precondition handed to a write.\<close>

fun sha_or_undefined :: "string option \<Rightarrow> string option" where
  "sha_or_undefined (Some (c # cs)) = Some (c # cs)"
| "sha_or_undefined _ = None"

text \<open>
  The two argument objects that every handler builds in the same way: the marker query
  \<^verbatim>\<open>{owner: cfg.owner, repo: cfg.repo, path, ref: DEFAULT_BRANCH}\<close> and the write
  \<^verbatim>\<open>{owner: cfg.owner, repo: cfg.repo, path, content, message, branch: DEFAULT_BRANCH,
  sha: sha || undefined}\<close>.
\<close>

definition marker_request :: "env \<Rightarrow> client_cfg \<Rightarrow> string \<Rightarrow> getContent_params" where
  "marker_request e cfg path =
     \<lparr>get_owner = owner cfg, get_repo = repo cfg, get_path = path, get_ref = DEFAULT_BRANCH e\<rparr>"

definition write_request ::
  "env \<Rightarrow> client_cfg \<Rightarrow> string \<Rightarrow> string \<Rightarrow> string \<Rightarrow> string option \<Rightarrow> write_params" where
  "write_request e cfg path content' message' sha =
     \<lparr>put_owner = owner cfg, put_repo = repo cfg, put_path = path, put_message = message',
      put_content = content', put_branch = DEFAULT_BRANCH e, put_sha = sha_or_undefined sha\<rparr>"

section \<open>Dialogs\<close>

text \<open>
  The step state: the object that \<^verbatim>\<open>JSON.stringify\<close> puts into a dialog's
  \<^verbatim>\<open>private_metadata\<close> and \<^verbatim>\<open>JSON.parse\<close> reads back at the next step. A field
  the object does not have is \<open>None\<close>; a dialog without metadata has \<open>None\<close> for the
  whole object, and parsing that throws.
\<close>

record metadata =
  clientKey :: string
  testName :: string
  exists :: "bool option"
  count :: "int option"

datatype text_object = Plain_text string | Mrkdwn string

datatype element =
  Static_select (action_id: string) text_object "(text_object \<times> string) list"
| Plain_text_input (action_id: string) "text_object option" "string option" bool
| Button text_object string (action_id: string)

datatype block =
  Section text_object
| Header text_object
| Input string text_object element
| Actions string "element list"

record view =
  callback_id :: string
  private_metadata :: "metadata option"
  title :: string
  submit :: "string option"
  close :: string
  blocks :: "block list"

text \<open>
  \<^verbatim>\<open>view.state.values\<close>: per block and action, the text typed (\<^verbatim>\<open>value\<close>) and the
  value of the option picked (\<^verbatim>\<open>selected_option.value\<close>), each possibly null. A
  missing \<^verbatim>\<open>values\<close> behaves as the empty map.
\<close>

record element_state =
  elem_value :: "string option"
  selected_option :: "string option"

type_synonym view_state = "string \<rightharpoonup> (string \<rightharpoonup> element_state)"

definition getStateValue :: "view_state \<Rightarrow> string \<Rightarrow> string \<Rightarrow> string option" where
  "getStateValue state blockId actionId =
     (case state blockId of
        None \<Rightarrow> None
      | Some blk \<Rightarrow>
          (case blk actionId of
             None \<Rightarrow> None
           | Some el \<Rightarrow>
               (case elem_value el of
                  Some (c # cs) \<Rightarrow> Some (c # cs)
                | _ \<Rightarrow>
                    (case selected_option el of
                       Some (c # cs) \<Rightarrow> Some (c # cs)
                     | _ \<Rightarrow> None))))"

text \<open>
  What a handler answers the platform with, and how it can end without answering: a
  TypeError (a property read on \<^verbatim>\<open>undefined\<close>), a SyntaxError (\<^verbatim>\<open>JSON.parse\<close> of no
  metadata). \<open>Count_out_of_range\<close> is not an error of the source: it marks a loop bound
  that is not an integer below \<open>2 ^ 53\<close>, where the integers of this model stop being the
  doubles of the source (at \<open>2 ^ 53\<close> the counter of the source stops growing and the
  loop does not end). The count step never produces such a bound, as shown below.
\<close>

datatype ack =
  Ack_errors "(string \<times> string) list"
| Ack_update view
| Ack_push view

datatype js_error = TypeError | SyntaxError | Count_out_of_range

section \<open>The wizard\<close>

subsection \<open>1) Slash command: the first dialog\<close>

definition clientOptions :: "env \<Rightarrow> (text_object \<times> string) list" where
  "clientOptions e = map (\<lambda>k. (Plain_text k, k)) (map fst (CLIENTS e))"

definition crp_command :: "env \<Rightarrow> view" where
  "crp_command e =
     \<lparr>callback_id = ''crp_pick_client_test'',
      private_metadata = None,
      title = ''CRP Automation'',
      submit = Some ''Continue'',
      close = ''Cancel'',
      blocks =
        [Input ''client_block'' (Plain_text ''Choose client'')
           (Static_select ''client_select'' (Plain_text ''Select a client'') (clientOptions e)),
         Input ''testname_block'' (Plain_text ''Test name'')
           (Plain_text_input ''test_name'' (Some (Plain_text ''e.g. hero-banner-cta'')) None False)]\<rparr>"

subsection \<open>2) Submit of the first dialog: check the store, push the choice\<close>

definition check_failed_view :: "request_error \<Rightarrow> view" where
  "check_failed_view e =
     \<lparr>callback_id = ''noop'',
      private_metadata = None,
      title = ''CRP Automation'',
      submit = None,
      close = ''Close'',
      blocks =
        [Section (Mrkdwn (cross_mark @ '' GitHub check failed:'' @ [CHR 0x0A] @ ''`''
                          @ message e @ ''`''))]\<rparr>"

definition update_or_create_view :: "string \<Rightarrow> string \<Rightarrow> bool \<Rightarrow> string \<Rightarrow> view" where
  "update_or_create_view clientKey' testName' exists' dirPath =
     \<lparr>callback_id = ''crp_update_or_create'',
      private_metadata =
        Some \<lparr>clientKey = clientKey', testName = testName', exists = Some exists', count = None\<rparr>,
      title = ''CRP Automation'',
      submit = None,
      close = ''Cancel'',
      blocks =
        [Section (Mrkdwn
           (if exists'
            then ''*Test found:* `'' @ dirPath @ ''`'' @ [CHR 0x0A] @ ''What would you like to do?''
            else ''*No existing test* at `'' @ dirPath @ ''`.'')),
         Actions ''choice_block''
           ([Button (Plain_text ''Create New'') ''create'' ''choose_create'']
            @ (if exists'
               then [Button (Plain_text ''Update Existing'') ''update'' ''choose_update'']
               else []))]\<rparr>"

definition crp_pick_client_test :: "env \<Rightarrow> octokit \<Rightarrow> view_state \<Rightarrow> ack \<times> event list" where
  "crp_pick_client_test e oct state =
     (let clientKey' = getStateValue state ''client_block'' ''client_select'';
          testName' = trim (str_or (getStateValue state ''testname_block'' ''test_name'') []);
          errors =
            (if clientKey' = None then [(''client_block'', ''Please select a client.'')] else [])
            @ (if testName' = [] then [(''testname_block'', ''Please enter a test name.'')] else [])
      in case clientKey' of
           None \<Rightarrow> (Ack_errors errors, [])
         | Some k \<Rightarrow>
             (if testName' = [] then (Ack_errors errors, [])
              else (case CLIENTS_get e k of
                 None \<Rightarrow>
                   (Ack_errors [(''client_block'', ''Unknown client in configuration.'')], [])
               | Some cfg \<Rightarrow>
                   (let dirPath = interpolate (testsPath cfg) @ ''/'' @ testName'
                    in case githubGetFileSha oct (marker_request e cfg dirPath) [] of
                         (Inl err, log) \<Rightarrow> (Ack_update (check_failed_view err), log)
                       | (Inr sha, log) \<Rightarrow>
                           (Ack_push (update_or_create_view k testName' (truthy sha) dirPath),
                            log)))))"

subsection \<open>3a) "Create New": ask for the number of variations\<close>

definition choose_create :: "metadata option \<Rightarrow> view" where
  "choose_create md =
     \<lparr>callback_id = ''crp_collect_variation_count'',
      private_metadata = md,
      title = ''Create New Test'',
      submit = Some ''Continue'',
      close = ''Cancel'',
      blocks =
        [Input ''varcount_block'' (Plain_text ''Number of variations (1-5)'')
           (Plain_text_input ''var_count'' None (Some ''1'') False)]\<rparr>"

text \<open>The loop that pushes a header, a JS field and a CSS field per variation.\<close>

definition variation_blocks :: "int \<Rightarrow> block list" where
  "variation_blocks i =
     [Header (Plain_text (''Variation '' @ Number_toString (Num i))),
      Input (''js_'' @ Number_toString (Num i))
        (Plain_text (''JS snippet '' @ Number_toString (Num i)))
        (Plain_text_input ''val'' None None True),
      Input (''css_'' @ Number_toString (Num i))
        (Plain_text (''CSS snippet '' @ Number_toString (Num i)))
        (Plain_text_input ''val'' None None True)]"

function push_blocks :: "int \<Rightarrow> int \<Rightarrow> block list \<Rightarrow> block list" where
  "push_blocks i count' blocks' =
     (if i \<le> count' then push_blocks (i + 1) count' (blocks' @ variation_blocks i) else blocks')"
  by pat_completeness auto
termination
  by (relation "measure (\<lambda>(i, count', blocks'). nat (count' + 1 - i))") auto

declare push_blocks.simps [simp del]

definition variation_count :: "view_state \<Rightarrow> jsnum" where
  "variation_count state =
     (let raw = str_or (getStateValue state ''varcount_block'' ''var_count'') ''1''
      in Math_max (Num 1) (Math_min (Num 5) (num_or (parseInt raw) (Num 1))))"

definition crp_collect_variation_count :: "metadata option \<Rightarrow> view_state \<Rightarrow> js_error + ack" where
  "crp_collect_variation_count md state =
     (case md of
        None \<Rightarrow> Inl SyntaxError
      | Some m \<Rightarrow>
          (case variation_count state of
             Num count' \<Rightarrow>
               Inr (Ack_update
                 \<lparr>callback_id = ''crp_create_commit'',
                  private_metadata =
                    Some \<lparr>clientKey = clientKey m, testName = testName m, exists = None,
                          count = Some count'\<rparr>,
                  title = ''New Test Snippets'',
                  submit = Some ''Create'',
                  close = ''Cancel'',
                  blocks = push_blocks 1 count' []\<rparr>)
           | _ \<Rightarrow> Inl Count_out_of_range))"

subsection \<open>3b) Submit of the snippets: write to the store\<close>

record op =
  op_path :: string
  op_content :: string

definition variation_ops :: "client_cfg \<Rightarrow> string \<Rightarrow> view_state \<Rightarrow> int \<Rightarrow> op list" where
  "variation_ops cfg testName' state i =
     (let js = str_or (getStateValue state (''js_'' @ Number_toString (Num i)) ''val'') [];
          css = str_or (getStateValue state (''css_'' @ Number_toString (Num i)) ''val'') [];
          base = interpolate (testsPath cfg) @ ''/'' @ testName' @ ''/var-'' @ Number_toString (Num i)
      in [\<lparr>op_path = base @ ''.js'', op_content = js\<rparr>,
          \<lparr>op_path = base @ ''.css'', op_content = css\<rparr>])"

function push_ops :: "client_cfg \<Rightarrow> string \<Rightarrow> view_state \<Rightarrow> int \<Rightarrow> int \<Rightarrow> op list \<Rightarrow> op list" where
  "push_ops cfg testName' state i count' ops =
     (if i \<le> count'
      then push_ops cfg testName' state (i + 1) count' (ops @ variation_ops cfg testName' state i)
      else ops)"
  by pat_completeness auto
termination
  by (relation "measure (\<lambda>(cfg, testName', state, i, count', ops). nat (count' + 1 - i))") auto

declare push_ops.simps [simp del]

text \<open>
  The body of the \<^verbatim>\<open>try\<close>: for each op in turn, fetch the marker of its path, then
  write with it. The first call that throws ends the loop.
\<close>

definition create_message :: "metadata \<Rightarrow> op \<Rightarrow> string" where
  "create_message m op' =
     ''CRP: create '' @ testName m @ '' ('' @ clientKey m @ '') -> '' @ op_path op'"

fun write_ops ::
  "env \<Rightarrow> octokit \<Rightarrow> client_cfg \<Rightarrow> metadata \<Rightarrow> op list \<Rightarrow> event list
     \<Rightarrow> (request_error + unit) \<times> event list" where
  "write_ops e oct cfg m [] log = (Inr (), log)"
| "write_ops e oct cfg m (op' # ops) log =
     (case githubGetFileSha oct (marker_request e cfg (op_path op')) log of
        (Inl err, log1) \<Rightarrow> (Inl err, log1)
      | (Inr sha, log1) \<Rightarrow>
          (case githubWriteFile oct
                  (write_request e cfg (op_path op') (op_content op') (create_message m op') sha)
                  log1 of
             (Inl err, log2) \<Rightarrow> (Inl err, log2)
           | (Inr _, log2) \<Rightarrow> write_ops e oct cfg m ops log2))"

text \<open>\<^verbatim>\<open>${count}\<close> of a count that may be missing from the metadata.\<close>

definition count_text :: "int option \<Rightarrow> string" where
  "count_text c = (case c of None \<Rightarrow> ''undefined'' | Some n \<Rightarrow> Number_toString (Num n))"

definition created_view :: "metadata \<Rightarrow> view" where
  "created_view m =
     \<lparr>callback_id = ''noop'',
      private_metadata = None,
      title = ''Created '' @ check_mark,
      submit = None,
      close = ''Close'',
      blocks =
        [Section (Mrkdwn (''Created *'' @ testName m @ ''* for *'' @ clientKey m @ ''* with ''
                          @ count_text (count m) @ '' variation(s).''))]\<rparr>"

definition create_error_view :: "request_error \<Rightarrow> view" where
  "create_error_view err =
     \<lparr>callback_id = ''noop'',
      private_metadata = None,
      title = ''Error'',
      submit = None,
      close = ''Close'',
      blocks =
        [Section (Mrkdwn (cross_mark @ '' GitHub error creating files:'' @ [CHR 0x0A] @ ''`''
                          @ message err @ ''`''))]\<rparr>"

text \<open>
  The ops are built before the \<^verbatim>\<open>try\<close>: with no configuration for the client, the
  first round of the loop reads \<^verbatim>\<open>cfg.testsPath\<close> of \<^verbatim>\<open>undefined\<close> and the handler
  dies; with no round to run (a count below 1, or none) nothing reads \<open>cfg\<close> at all.
\<close>

definition create_ops :: "env \<Rightarrow> metadata \<Rightarrow> view_state \<Rightarrow> js_error + (client_cfg option \<times> op list)" where
  "create_ops e m state =
     (case count m of
        None \<Rightarrow> Inr (CLIENTS_get e (clientKey m), [])
      | Some count' \<Rightarrow>
          (case CLIENTS_get e (clientKey m) of
             None \<Rightarrow> if 1 \<le> count' then Inl TypeError else Inr (None, [])
           | Some cfg \<Rightarrow>
               if 2 ^ 53 \<le> count' then Inl Count_out_of_range
               else Inr (Some cfg, push_ops cfg (testName m) state 1 count' [])))"

definition crp_create_commit ::
  "env \<Rightarrow> octokit \<Rightarrow> metadata option \<Rightarrow> view_state \<Rightarrow> (js_error + ack) \<times> event list" where
  "crp_create_commit e oct md state =
     (case md of
        None \<Rightarrow> (Inl SyntaxError, [])
      | Some m \<Rightarrow>
          (case create_ops e m state of
             Inl err \<Rightarrow> (Inl err, [])
           | Inr (None, ops) \<Rightarrow> (Inr (Ack_update (created_view m)), [])
           | Inr (Some cfg, ops) \<Rightarrow>
               (case write_ops e oct cfg m ops [] of
                  (Inr _, log) \<Rightarrow> (Inr (Ack_update (created_view m)), log)
                | (Inl err, log) \<Rightarrow> (Inr (Ack_update (create_error_view err)), log))))"

subsection \<open>4) "Update Existing": one variation, overwritten\<close>

definition choose_update :: "env \<Rightarrow> metadata option \<Rightarrow> js_error + view" where
  "choose_update e md =
     (case md of
        None \<Rightarrow> Inl SyntaxError
      | Some m \<Rightarrow>
          (case CLIENTS_get e (clientKey m) of
             None \<Rightarrow> Inl TypeError
           | Some cfg \<Rightarrow>
               (let baseDir = interpolate (testsPath cfg) @ ''/'' @ testName m
                in Inr
                  \<lparr>callback_id = ''crp_update_commit'',
                   private_metadata = md,
                   title = ''Update Existing Test'',
                   submit = Some ''Update'',
                   close = ''Cancel'',
                   blocks =
                     [Section (Mrkdwn (''Updating files under `'' @ baseDir @ ''` (default: var-1)'')),
                      Input ''var_id'' (Plain_text ''Variation number'')
                        (Plain_text_input ''val'' None (Some ''1'') False),
                      Input ''u_js'' (Plain_text ''New JS snippet'')
                        (Plain_text_input ''val'' None None True),
                      Input ''u_css'' (Plain_text ''New CSS snippet'')
                        (Plain_text_input ''val'' None None True)]\<rparr>)))"

definition updated_view :: "metadata \<Rightarrow> jsnum \<Rightarrow> view" where
  "updated_view m v =
     \<lparr>callback_id = ''noop'',
      private_metadata = None,
      title = ''Updated '' @ check_mark,
      submit = None,
      close = ''Close'',
      blocks =
        [Section (Mrkdwn (''Updated *'' @ testName m @ ''* variation *'' @ Number_toString v
                          @ ''* for *'' @ clientKey m @ ''*.''))]\<rparr>"

definition update_error_view :: "request_error \<Rightarrow> view" where
  "update_error_view err =
     \<lparr>callback_id = ''noop'',
      private_metadata = None,
      title = ''Error'',
      submit = None,
      close = ''Close'',
      blocks =
        [Section (Mrkdwn (cross_mark @ '' GitHub update failed:'' @ [CHR 0x0A] @ ''`''
                          @ message err @ ''`''))]\<rparr>"

text \<open>The variation index and the two paths of the update.\<close>

definition update_index :: "view_state \<Rightarrow> jsnum" where
  "update_index state = parseInt (str_or (getStateValue state ''var_id'' ''val'') ''1'')"

definition jsPath :: "client_cfg \<Rightarrow> metadata \<Rightarrow> jsnum \<Rightarrow> string" where
  "jsPath cfg m v = interpolate (testsPath cfg) @ ''/'' @ testName m @ ''/var-'' @ Number_toString v @ ''.js''"

definition cssPath :: "client_cfg \<Rightarrow> metadata \<Rightarrow> jsnum \<Rightarrow> string" where
  "cssPath cfg m v = interpolate (testsPath cfg) @ ''/'' @ testName m @ ''/var-'' @ Number_toString v @ ''.css''"

text \<open>The body of the \<^verbatim>\<open>try\<close>: both markers are fetched, then both files written.\<close>

definition update_message :: "metadata \<Rightarrow> jsnum \<Rightarrow> string \<Rightarrow> string" where
  "update_message m v ext = ''CRP: update '' @ testName m @ '' var-'' @ Number_toString v @ ext"

definition update_writes ::
  "env \<Rightarrow> octokit \<Rightarrow> client_cfg \<Rightarrow> metadata \<Rightarrow> jsnum \<Rightarrow> string \<Rightarrow> string
     \<Rightarrow> (request_error + unit) \<times> event list" where
  "update_writes e oct cfg m v js css =
     (case githubGetFileSha oct (marker_request e cfg (jsPath cfg m v)) [] of
        (Inl err, log1) \<Rightarrow> (Inl err, log1)
      | (Inr jsSha, log1) \<Rightarrow>
     (case githubGetFileSha oct (marker_request e cfg (cssPath cfg m v)) log1 of
        (Inl err, log2) \<Rightarrow> (Inl err, log2)
      | (Inr cssSha, log2) \<Rightarrow>
     (case githubWriteFile oct
             (write_request e cfg (jsPath cfg m v) js (update_message m v ''.js'') jsSha) log2 of
        (Inl err, log3) \<Rightarrow> (Inl err, log3)
      | (Inr _, log3) \<Rightarrow>
          githubWriteFile oct
            (write_request e cfg (cssPath cfg m v) css (update_message m v ''.css'') cssSha)
            log3)))"

definition crp_update_commit ::
  "env \<Rightarrow> octokit \<Rightarrow> metadata option \<Rightarrow> view_state \<Rightarrow> (js_error + ack) \<times> event list" where
  "crp_update_commit e oct md state =
     (case md of
        None \<Rightarrow> (Inl SyntaxError, [])
      | Some m \<Rightarrow>
          (let v = update_index state;
               js = str_or (getStateValue state ''u_js'' ''val'') [];
               css = str_or (getStateValue state ''u_css'' ''val'') []
           in case CLIENTS_get e (clientKey m) of
                None \<Rightarrow> (Inl TypeError, [])
              | Some cfg \<Rightarrow>
                  (case update_writes e oct cfg m v js css of
                     (Inr _, log) \<Rightarrow> (Inr (Ack_update (updated_view m v)), log)
                   | (Inl err, log) \<Rightarrow> (Inr (Ack_update (update_error_view err)), log))))"

subsection \<open>The states of the wizard\<close>

text \<open>
  A dialog is in the state of the handler its \<^verbatim>\<open>callback_id\<close> names. The choice
  dialog has no submit handler but two buttons; \<^verbatim>\<open>noop\<close>, the id of every result
  dialog, names no handler at all.
\<close>

datatype wizard_state =
  AwaitingClientAndName | AwaitingChoice | AwaitingVariationCount
| AwaitingCreateSnippets | AwaitingUpdateSnippets | Terminal

definition state_of :: "view \<Rightarrow> wizard_state" where
  "state_of v =
     (if callback_id v = ''crp_pick_client_test'' then AwaitingClientAndName
      else if callback_id v = ''crp_update_or_create'' then AwaitingChoice
      else if callback_id v = ''crp_collect_variation_count'' then AwaitingVariationCount
      else if callback_id v = ''crp_create_commit'' then AwaitingCreateSnippets
      else if callback_id v = ''crp_update_commit'' then AwaitingUpdateSnippets
      else Terminal)"

section \<open>Observing a handler\<close>

text \<open>
  The writes among the calls issued; the error a call threw into the handler, if any (a
  404 of a marker query is not one: \<^verbatim>\<open>githubGetFileSha\<close> turns it into null).
\<close>

fun writes :: "event list \<Rightarrow> write_params list" where
  "writes [] = []"
| "writes (Put p r # evs) = p # writes evs"
| "writes (Get g r # evs) = writes evs"

fun thrown :: "event \<Rightarrow> request_error option" where
  "thrown (Get g r) = (case marker_of r of Inl err \<Rightarrow> Some err | Inr sha \<Rightarrow> None)"
| "thrown (Put p r) = (case r of Inl err \<Rightarrow> Some err | Inr u \<Rightarrow> None)"

definition failed :: "event \<Rightarrow> bool" where
  "failed ev = (thrown ev \<noteq> None)"

text \<open>The dialog an answer shows, and the step state attached to it.\<close>

fun shown :: "ack \<Rightarrow> view option" where
  "shown (Ack_errors errs) = None"
| "shown (Ack_update v) = Some v"
| "shown (Ack_push v) = Some v"

definition carried :: "ack \<Rightarrow> metadata option" where
  "carried a = (case shown a of None \<Rightarrow> None | Some v \<Rightarrow> private_metadata v)"

text \<open>
  \<open>fetched ev p\<close>: the call \<open>ev\<close> is a marker query for the file that \<open>p\<close> writes, and
  the marker it fetched is the precondition of \<open>p\<close> (none for a null marker).
  \<open>markers_used seen log\<close>: every write of \<open>log\<close> comes after such a query, \<open>seen\<close> being
  the calls before \<open>log\<close>.
\<close>

fun fetched :: "event \<Rightarrow> write_params \<Rightarrow> bool" where
  "fetched (Get g res) p =
     (get_owner g = put_owner p \<and> get_repo g = put_repo p \<and> get_path g = put_path p
      \<and> get_ref g = put_branch p \<and> marker_of res = Inr (put_sha p))"
| "fetched (Put q r) p = False"

fun markers_used :: "event list \<Rightarrow> event list \<Rightarrow> bool" where
  "markers_used seen [] = True"
| "markers_used seen (Get g res # log) = markers_used (seen @ [Get g res]) log"
| "markers_used seen (Put p r # log) =
     (list_ex (\<lambda>ev. fetched ev p) seen \<and> markers_used (seen @ [Put p r]) log)"

text \<open>
  The calls that the write loop of the create flow can leave behind for a list of ops,
  with its outcome: nothing for no op; for a first op whose query threw, that query; for
  one whose write threw, the query and the write; else both, followed by the calls for
  the remaining ops.
\<close>

inductive create_trace ::
  "env \<Rightarrow> client_cfg \<Rightarrow> metadata \<Rightarrow> op list \<Rightarrow> request_error + unit \<Rightarrow> event list \<Rightarrow> bool"
  for e :: env and cfg :: client_cfg and m :: metadata where
  all_written: "create_trace e cfg m [] (Inr ()) []"
| query_threw:
    "marker_of res = Inl err \<Longrightarrow>
     create_trace e cfg m (op' # ops) (Inl err) [Get (marker_request e cfg (op_path op')) res]"
| write_threw:
    "marker_of res = Inr sha \<Longrightarrow>
     create_trace e cfg m (op' # ops) (Inl err)
       [Get (marker_request e cfg (op_path op')) res,
        Put (write_request e cfg (op_path op') (op_content op') (create_message m op') sha)
          (Inl err)]"
| written:
    "marker_of res = Inr sha \<Longrightarrow> create_trace e cfg m ops r new \<Longrightarrow>
     create_trace e cfg m (op' # ops) r
       (Get (marker_request e cfg (op_path op')) res
        # Put (write_request e cfg (op_path op') (op_content op') (create_message m op') sha)
            (Inr ())
        # new)"

text \<open>The two paths that the claims name for variation \<open>i\<close> of a test.\<close>

definition variation_paths :: "client_cfg \<Rightarrow> metadata \<Rightarrow> int \<Rightarrow> string list" where
  "variation_paths cfg m i =
     [interpolate (testsPath cfg) @ ''/'' @ testName m @ ''/var-'' @ decimal i @ ''.js'',
      interpolate (testsPath cfg) @ ''/'' @ testName m @ ''/var-'' @ decimal i @ ''.css'']"

section \<open>A client, a store and some submissions\<close>

text \<open>
  The configuration of the end-to-end scenarios: client \<^verbatim>\<open>acme\<close> with tests under
  \<^verbatim>\<open>acme-tests\<close>, test name \<^verbatim>\<open>hero-cta\<close>.
\<close>

definition acme_cfg :: client_cfg where
  "acme_cfg = \<lparr>owner = Some ''acme-co'', repo = Some ''site'', testsPath = Some ''acme-tests''\<rparr>"

definition acme_env :: env where
  "acme_env = \<lparr>CLIENTS = [(''acme'', acme_cfg)], DEFAULT_BRANCH = ''main''\<rparr>"

definition hero_choice :: metadata where
  "hero_choice = \<lparr>clientKey = ''acme'', testName = ''hero-cta'', exists = Some True, count = None\<rparr>"

definition hero_count :: "int \<Rightarrow> metadata" where
  "hero_count n = \<lparr>clientKey = ''acme'', testName = ''hero-cta'', exists = None, count = Some n\<rparr>"

text \<open>A dialog state with one text field filled in, and one with nothing filled in.\<close>

definition typed :: "string \<Rightarrow> string \<Rightarrow> string \<Rightarrow> view_state" where
  "typed blockId actionId s = [blockId \<mapsto> [actionId \<mapsto> \<lparr>elem_value = Some s, selected_option = None\<rparr>]]"

definition nothing_typed :: view_state where
  "nothing_typed = Map.empty"

text \<open>The first dialog, submitted with a client picked and a test name typed (or not).\<close>

definition submitted :: "string option \<Rightarrow> string option \<Rightarrow> view_state" where
  "submitted client name =
     [''client_block'' \<mapsto> [''client_select'' \<mapsto> \<lparr>elem_value = None, selected_option = client\<rparr>],
      ''testname_block'' \<mapsto> [''test_name'' \<mapsto> \<lparr>elem_value = name, selected_option = None\<rparr>]]"

text \<open>
  Stores: one where no path exists and every write succeeds; one where every path exists
  with marker \<^verbatim>\<open>abc123\<close>; one where no path exists and every write is refused; one
  where every path is a directory; one whose queries fail with a server error.
\<close>

definition not_found :: request_error where
  "not_found = Request_error (Some 404) ''Not Found''"

definition empty_store :: octokit where
  "empty_store =
     \<lparr>getContent = (\<lambda>log g. Inl not_found),
      createOrUpdateFileContents = (\<lambda>log p. Inr ())\<rparr>"

definition full_store :: octokit where
  "full_store =
     \<lparr>getContent = (\<lambda>log g. Inr (Object_data (Some ''abc123''))),
      createOrUpdateFileContents = (\<lambda>log p. Inr ())\<rparr>"

definition read_only_store :: octokit where
  "read_only_store =
     \<lparr>getContent = (\<lambda>log g. Inl not_found),
      createOrUpdateFileContents = (\<lambda>log p. Inl (Request_error (Some 403) ''Forbidden''))\<rparr>"

definition dir_store :: octokit where
  "dir_store =
     \<lparr>getContent = (\<lambda>log g. Inr Array_data),
      createOrUpdateFileContents = (\<lambda>log p. Inr ())\<rparr>"

definition broken_store :: octokit where
  "broken_store =
     \<lparr>getContent = (\<lambda>log g. Inl (Request_error (Some 500) ''Server Error'')),
      createOrUpdateFileContents = (\<lambda>log p. Inr ())\<rparr>"

section \<open>Properties of the building blocks\<close>

subsection \<open>Revision markers\<close>

lemma marker_of_nonempty: "marker_of res = Inr (Some s) \<Longrightarrow> s \<noteq> []"
  by (auto simp: marker_of_def
      split: sum.splits content_data.splits option.splits list.splits if_splits)

lemma sha_or_undefined_marker: "marker_of res = Inr sha \<Longrightarrow> sha_or_undefined sha = sha"
proof (cases sha)
  case None
  then show ?thesis by simp
next
  case (Some s)
  assume "marker_of res = Inr sha"
  with Some have "s \<noteq> []" by (simp add: marker_of_nonempty)
  with Some show ?thesis by (cases s) simp_all
qed

lemma truthy_marker: "marker_of res = Inr sha \<Longrightarrow> truthy sha = (sha \<noteq> None)"
proof (cases sha)
  case None
  then show ?thesis by simp
next
  case (Some s)
  assume "marker_of res = Inr sha"
  with Some have "s \<noteq> []" by (simp add: marker_of_nonempty)
  with Some show ?thesis by (cases s) simp_all
qed

subsection \<open>Reading the form\<close>

text \<open>A field reads as null exactly when it is missing or nothing non-empty is in it.\<close>

lemma getStateValue_None:
  "getStateValue state blockId actionId = None \<longleftrightarrow>
     (case state blockId of None \<Rightarrow> True
      | Some blk \<Rightarrow> (case blk actionId of None \<Rightarrow> True
          | Some el \<Rightarrow> elem_value el \<in> {None, Some []} \<and> selected_option el \<in> {None, Some []}))"
  by (auto simp: getStateValue_def split: option.splits list.splits)

subsection \<open>The two counting loops\<close>

lemma push_blocks_eq: "push_blocks i c bs = bs @ concat (map variation_blocks [i..c])"
proof (induction i c bs rule: push_blocks.induct)
  case (1 i c bs)
  show ?case
  proof (cases "i \<le> c")
    case True
    then have "[i..c] = i # [i + 1..c]" by (simp add: upto_rec1)
    with True "1" show ?thesis by (simp add: push_blocks.simps [of i c bs])
  next
    case False
    then show ?thesis by (simp add: push_blocks.simps [of i c bs])
  qed
qed

lemma push_ops_eq:
  "push_ops cfg t state i c ops = ops @ concat (map (variation_ops cfg t state) [i..c])"
proof (induction cfg t state i c ops rule: push_ops.induct)
  case (1 cfg t state i c ops)
  show ?case
  proof (cases "i \<le> c")
    case True
    then have "[i..c] = i # [i + 1..c]" by (simp add: upto_rec1)
    with True "1" show ?thesis by (simp add: push_ops.simps [of cfg t state i c ops])
  next
    case False
    then show ?thesis by (simp add: push_ops.simps [of cfg t state i c ops])
  qed
qed

lemma clamp_cases:
  "Math_max (Num 1) (Math_min (Num 5) (num_or x (Num 1))) =
     Num (case x of NaN \<Rightarrow> 1 | PosInf \<Rightarrow> 5 | NegInf \<Rightarrow> 1
          | Num n \<Rightarrow> if n \<le> 0 then 1 else if 5 < n then 5 else n)"
  by (cases x) auto

lemma variation_count_Num:
  "variation_count state =
     Num (case parseInt (str_or (getStateValue state ''varcount_block'' ''var_count'') ''1'') of
            NaN \<Rightarrow> 1 | PosInf \<Rightarrow> 5 | NegInf \<Rightarrow> 1
          | Num n \<Rightarrow> if n \<le> 0 then 1 else if 5 < n then 5 else n)"
  unfolding variation_count_def Let_def by (rule clamp_cases)

subsection \<open>The write loop of the create flow\<close>

lemma write_ops_trace:
  "write_ops e oct cfg m ops log = (r, log') \<Longrightarrow>
     \<exists>new. log' = log @ new \<and> create_trace e cfg m ops r new"
proof (induction ops arbitrary: log)
  case Nil
  then show ?case by (auto intro: create_trace.all_written)
next
  case (Cons op' ops)
  let ?g = "marker_request e cfg (op_path op')"
  let ?res = "getContent oct log ?g"
  show ?case
  proof (cases "marker_of ?res")
    case (Inl err)
    with Cons.prems have "r = Inl err" "log' = log @ [Get ?g ?res]"
      by (auto simp: githubGetFileSha_def Let_def)
    with Inl show ?thesis by (auto intro: create_trace.query_threw)
  next
    case (Inr sha)
    let ?p = "write_request e cfg (op_path op') (op_content op') (create_message m op') sha"
    let ?log1 = "log @ [Get ?g ?res]"
    let ?w = "createOrUpdateFileContents oct ?log1 ?p"
    show ?thesis
    proof (cases ?w)
      case (Inl err)
      with Inr Cons.prems have "r = Inl err" "log' = log @ [Get ?g ?res, Put ?p (Inl err)]"
        by (auto simp: githubGetFileSha_def githubWriteFile_def Let_def)
      with Inr show ?thesis by (auto intro: create_trace.write_threw)
    next
      case (Inr u)
      with \<open>marker_of ?res = Inr sha\<close> Cons.prems
      have "write_ops e oct cfg m ops (?log1 @ [Put ?p (Inr ())]) = (r, log')"
        by (simp add: githubGetFileSha_def githubWriteFile_def Let_def)
      from Cons.IH [OF this] obtain new where
        "log' = (?log1 @ [Put ?p (Inr ())]) @ new" "create_trace e cfg m ops r new"
        by blast
      with \<open>marker_of ?res = Inr sha\<close> show ?thesis
        by (auto intro: create_trace.written)
    qed
  qed
qed

lemma create_trace_writes:
  "create_trace e cfg m ops r new \<Longrightarrow>
     \<exists>k \<le> length ops. map put_path (writes new) = take k (map op_path ops)"
proof (induction rule: create_trace.induct)
  case all_written
  then show ?case by simp
next
  case (query_threw res err op' ops)
  have "map put_path (writes [Get (marker_request e cfg (op_path op')) res])
          = take 0 (map op_path (op' # ops))"
    by simp
  then show ?case by blast
next
  case (write_threw res sha op' ops err)
  have "map put_path (writes [Get (marker_request e cfg (op_path op')) res,
        Put (write_request e cfg (op_path op') (op_content op') (create_message m op') sha) (Inl err)])
        = take 1 (map op_path (op' # ops))"
    by (simp add: write_request_def)
  moreover have "1 \<le> length (op' # ops)" by simp
  ultimately show ?case by blast
next
  case (written res sha ops r new op')
  then obtain k where k: "k \<le> length ops" "map put_path (writes new) = take k (map op_path ops)"
    by blast
  then have "map put_path (writes (Get (marker_request e cfg (op_path op')) res
        # Put (write_request e cfg (op_path op') (op_content op') (create_message m op') sha) (Inr ())
        # new)) = take (Suc k) (map op_path (op' # ops))"
    by (simp add: write_request_def)
  moreover from k have "Suc k \<le> length (op' # ops)" by simp
  ultimately show ?case by blast
qed

lemma create_trace_success:
  "create_trace e cfg m ops (Inr u) new \<Longrightarrow>
     map put_path (writes new) = map op_path ops \<and> (\<forall>ev \<in> set new. \<not> failed ev)"
  by (induction ops "Inr u :: request_error + unit" new rule: create_trace.induct)
     (auto simp: write_request_def failed_def)

lemma create_trace_failure:
  "create_trace e cfg m ops (Inl err) new \<Longrightarrow>
     new \<noteq> [] \<and> thrown (last new) = Some err \<and> (\<forall>ev \<in> set (butlast new). \<not> failed ev)"
  by (induction ops "Inl err :: request_error + unit" new rule: create_trace.induct)
     (auto simp: failed_def)

lemma create_trace_markers:
  "create_trace e cfg m ops r new \<Longrightarrow> markers_used seen new"
proof (induction arbitrary: seen rule: create_trace.induct)
  case (write_threw res sha op' ops err)
  then show ?case
    by (simp add: marker_request_def write_request_def sha_or_undefined_marker)
next
  case (written res sha ops r new op')
  then show ?case
    by (simp add: marker_request_def write_request_def sha_or_undefined_marker)
qed simp_all

lemma safe_double_to_string: "i < 2 ^ 53 \<Longrightarrow> double_to_string i = decimal i"
  unfolding double_to_string_def by (rule if_P)

lemma safe_integer_toString:
  "0 \<le> i \<Longrightarrow> i < 2 ^ 53 \<Longrightarrow> Number_toString (Num i) = decimal i"
  using safe_double_to_string [of i] by simp

lemma variation_ops_paths:
  assumes "0 \<le> i" and "i < 2 ^ 53"
  shows "map op_path (variation_ops cfg (testName m) state i) = variation_paths cfg m i"
  unfolding variation_ops_def variation_paths_def Let_def safe_integer_toString [OF assms]
  by simp

lemma ops_paths:
  assumes "N < 2 ^ 53"
  shows "map op_path (concat (map (variation_ops cfg (testName m) state) [1..N]))
           = concat (map (variation_paths cfg m) [1..N])"
proof -
  have "map (map op_path) (map (variation_ops cfg (testName m) state) [1..N])
          = map (variation_paths cfg m) [1..N]"
    unfolding map_map
  proof (rule map_cong [OF refl])
    fix i assume "i \<in> set [1..N]"
    with assms have "0 \<le> i" "i < 2 ^ 53" by auto
    then show "(map op_path \<circ> variation_ops cfg (testName m) state) i = variation_paths cfg m i"
      unfolding comp_def by (rule variation_ops_paths)
  qed
  then show ?thesis
    by (simp only: map_concat)
qed

lemma length_variation_paths: "length (concat (map (variation_paths cfg m) [1..N])) = 2 * nat N"
proof -
  have "map (\<lambda>i. length (variation_paths cfg m i)) [1..N] = replicate (length [1..N]) 2"
    by (simp add: variation_paths_def map_replicate_const)
  then show ?thesis
    by (simp add: length_concat comp_def sum_list_replicate)
qed

lemma crp_create_commit_unfold:
  assumes "CLIENTS_get e (clientKey m) = Some cfg" and "count m = Some N" and "N < 2 ^ 53"
  shows "crp_create_commit e oct (Some m) state =
     (case write_ops e oct cfg m (concat (map (variation_ops cfg (testName m) state) [1..N])) [] of
        (Inr u, log) \<Rightarrow> (Inr (Ack_update (created_view m)), log)
      | (Inl err, log) \<Rightarrow> (Inr (Ack_update (create_error_view err)), log))"
  using assms by (simp add: crp_create_commit_def create_ops_def push_ops_eq)

lemma create_commit_trace:
  assumes "CLIENTS_get e (clientKey m) = Some cfg" and "count m = Some N" and "N < 2 ^ 53"
  obtains r log where
    "create_trace e cfg m (concat (map (variation_ops cfg (testName m) state) [1..N])) r log"
    "crp_create_commit e oct (Some m) state =
       (Inr (Ack_update (case r of Inr u \<Rightarrow> created_view m | Inl err \<Rightarrow> create_error_view err)), log)"
proof -
  let ?ops = "concat (map (variation_ops cfg (testName m) state) [1..N])"
  obtain r log where w: "write_ops e oct cfg m ?ops [] = (r, log)"
    by (cases "write_ops e oct cfg m ?ops []")
  from write_ops_trace [OF w] have "create_trace e cfg m ?ops r log" by simp
  moreover from w have "crp_create_commit e oct (Some m) state =
       (Inr (Ack_update (case r of Inr u \<Rightarrow> created_view m | Inl err \<Rightarrow> create_error_view err)), log)"
    by (simp add: crp_create_commit_unfold [OF assms] split: sum.splits)
  ultimately show thesis by (rule that)
qed

subsection \<open>The four calls of the update flow\<close>

lemma update_writes_cases:
  fixes e oct cfg m v js css
  defines "gjs \<equiv> marker_request e cfg (jsPath cfg m v)"
  defines "gcss \<equiv> marker_request e cfg (cssPath cfg m v)"
  defines "pjs \<equiv> \<lambda>sha. write_request e cfg (jsPath cfg m v) js (update_message m v ''.js'') sha"
  defines "pcss \<equiv> \<lambda>sha. write_request e cfg (cssPath cfg m v) css (update_message m v ''.css'') sha"
  obtains
    (js_query_threw) res err where
      "marker_of res = Inl err"
      "update_writes e oct cfg m v js css = (Inl err, [Get gjs res])"
  | (css_query_threw) res1 jsSha res2 err where
      "marker_of res1 = Inr jsSha" "marker_of res2 = Inl err"
      "update_writes e oct cfg m v js css = (Inl err, [Get gjs res1, Get gcss res2])"
  | (js_write_threw) res1 jsSha res2 cssSha err where
      "marker_of res1 = Inr jsSha" "marker_of res2 = Inr cssSha"
      "update_writes e oct cfg m v js css
         = (Inl err, [Get gjs res1, Get gcss res2, Put (pjs jsSha) (Inl err)])"
  | (both_issued) res1 jsSha res2 cssSha w where
      "marker_of res1 = Inr jsSha" "marker_of res2 = Inr cssSha"
      "update_writes e oct cfg m v js css
         = (w, [Get gjs res1, Get gcss res2, Put (pjs jsSha) (Inr ()), Put (pcss cssSha) w])"
proof -
  let ?res1 = "getContent oct [] gjs"
  let ?res2 = "getContent oct [Get gjs ?res1] gcss"
  show thesis
  proof (cases "marker_of ?res1")
    case (Inl err)
    then have "update_writes e oct cfg m v js css = (Inl err, [Get gjs ?res1])"
      by (simp add: update_writes_def githubGetFileSha_def Let_def gjs_def)
    with Inl show thesis by (rule js_query_threw)
  next
    case jsSha: (Inr jsSha)
    show thesis
    proof (cases "marker_of ?res2")
      case (Inl err)
      with jsSha have "update_writes e oct cfg m v js css = (Inl err, [Get gjs ?res1, Get gcss ?res2])"
        by (simp add: update_writes_def githubGetFileSha_def Let_def gjs_def gcss_def)
      with jsSha Inl show thesis by (rule css_query_threw)
    next
      case cssSha: (Inr cssSha)
      let ?w1 = "createOrUpdateFileContents oct [Get gjs ?res1, Get gcss ?res2] (pjs jsSha)"
      show thesis
      proof (cases ?w1)
        case (Inl err)
        with jsSha cssSha have "update_writes e oct cfg m v js css
           = (Inl err, [Get gjs ?res1, Get gcss ?res2, Put (pjs jsSha) (Inl err)])"
          by (simp add: update_writes_def githubGetFileSha_def githubWriteFile_def Let_def
              gjs_def gcss_def pjs_def)
        with jsSha cssSha show thesis by (rule js_write_threw)
      next
        case (Inr u)
        let ?w2 = "createOrUpdateFileContents oct
                     [Get gjs ?res1, Get gcss ?res2, Put (pjs jsSha) (Inr ())] (pcss cssSha)"
        from Inr jsSha cssSha have "update_writes e oct cfg m v js css
           = (?w2, [Get gjs ?res1, Get gcss ?res2, Put (pjs jsSha) (Inr ()), Put (pcss cssSha) ?w2])"
          by (simp add: update_writes_def githubGetFileSha_def githubWriteFile_def Let_def
              gjs_def gcss_def pjs_def pcss_def)
        with jsSha cssSha show thesis by (rule both_issued)
      qed
    qed
  qed
qed

lemma update_writes_markers: "markers_used [] (snd (update_writes e oct cfg m v js css))"
  by (cases rule: update_writes_cases [of e oct cfg m v js css])
     (simp_all add: marker_request_def write_request_def sha_or_undefined_marker)

lemma crp_update_commit_unfold:
  assumes "CLIENTS_get e (clientKey m) = Some cfg"
  shows "crp_update_commit e oct (Some m) state =
     (case update_writes e oct cfg m (update_index state)
             (str_or (getStateValue state ''u_js'' ''val'') [])
             (str_or (getStateValue state ''u_css'' ''val'') []) of
        (Inr u, log) \<Rightarrow> (Inr (Ack_update (updated_view m (update_index state))), log)
      | (Inl err, log) \<Rightarrow> (Inr (Ack_update (update_error_view err)), log))"
  using assms by (simp add: crp_update_commit_def Let_def)

lemma update_writes_paths:
  fixes e oct cfg m v js css
  defines "log \<equiv> snd (update_writes e oct cfg m v js css)"
  shows "(\<exists>k \<le> 2. map put_path (writes log) = take k [jsPath cfg m v, cssPath cfg m v])
         \<and> ((\<forall>ev \<in> set log. \<not> failed ev) \<longrightarrow>
              map put_path (writes log) = [jsPath cfg m v, cssPath cfg m v])"
proof (cases rule: update_writes_cases [of e oct cfg m v js css])
  case (js_query_threw res err)
  then have "map put_path (writes log) = take 0 [jsPath cfg m v, cssPath cfg m v]"
    and "\<exists>ev \<in> set log. failed ev"
    by (simp_all add: log_def failed_def)
  then show ?thesis by blast
next
  case (css_query_threw res1 jsSha res2 err)
  then have "map put_path (writes log) = take 0 [jsPath cfg m v, cssPath cfg m v]"
    and "\<exists>ev \<in> set log. failed ev"
    by (simp_all add: log_def failed_def)
  then show ?thesis by blast
next
  case (js_write_threw res1 jsSha res2 cssSha err)
  then have "map put_path (writes log) = take 1 [jsPath cfg m v, cssPath cfg m v]"
    and "\<exists>ev \<in> set log. failed ev"
    by (simp_all add: log_def failed_def write_request_def)
  moreover have "(1::nat) \<le> 2" by simp
  ultimately show ?thesis by blast
next
  case (both_issued res1 jsSha res2 cssSha w)
  then have "map put_path (writes log) = take 2 [jsPath cfg m v, cssPath cfg m v]"
    by (simp add: log_def write_request_def)
  then show ?thesis by auto
qed

subsection \<open>The existence check\<close>

lemma crp_pick_client_test_valid:
  assumes "getStateValue state ''client_block'' ''client_select'' = Some k"
    and "trim (str_or (getStateValue state ''testname_block'' ''test_name'') []) = t" and "t \<noteq> []"
    and "CLIENTS_get e k = Some cfg"
  shows "crp_pick_client_test e oct state =
     (case marker_of (getContent oct [] (marker_request e cfg (interpolate (testsPath cfg) @ ''/'' @ t))) of
        Inl err \<Rightarrow> Ack_update (check_failed_view err)
      | Inr sha \<Rightarrow> Ack_push (update_or_create_view k t (sha \<noteq> None) (interpolate (testsPath cfg) @ ''/'' @ t)),
      [Get (marker_request e cfg (interpolate (testsPath cfg) @ ''/'' @ t))
         (getContent oct [] (marker_request e cfg (interpolate (testsPath cfg) @ ''/'' @ t)))])"
  using assms
  by (auto simp: crp_pick_client_test_def githubGetFileSha_def Let_def truthy_marker
      split: sum.splits)

subsection \<open>The result dialogs\<close>

lemma create_commit_answer:
  "fst (crp_create_commit e oct md state) = Inr a \<Longrightarrow>
     (\<exists>m. a = Ack_update (created_view m)) \<or> (\<exists>err. a = Ack_update (create_error_view err))"
  by (auto simp: crp_create_commit_def split: option.splits sum.splits prod.splits)

lemma update_commit_answer:
  "fst (crp_update_commit e oct md state) = Inr a \<Longrightarrow>
     (\<exists>m v. a = Ack_update (updated_view m v)) \<or> (\<exists>err. a = Ack_update (update_error_view err))"
  by (auto simp: crp_update_commit_def Let_def split: option.splits sum.splits prod.splits)

lemma result_dialogs_noop:
  "callback_id (created_view m) = ''noop''" "private_metadata (created_view m) = None"
  "callback_id (create_error_view err) = ''noop''" "private_metadata (create_error_view err) = None"
  "callback_id (updated_view m v) = ''noop''" "private_metadata (updated_view m v) = None"
  "callback_id (update_error_view err) = ''noop''" "private_metadata (update_error_view err) = None"
  by (simp_all add: created_view_def create_error_view_def updated_view_def update_error_view_def)

lemma noop_terminal: "callback_id v = ''noop'' \<Longrightarrow> state_of v = Terminal"
  by (simp add: state_of_def)

subsection \<open>Evaluations\<close>

lemma create_two_answer:
  "fst (crp_create_commit acme_env empty_store (Some (hero_count 2)) nothing_typed)
     = Inr (Ack_update (created_view (hero_count 2)))"
  by code_simp

lemma upto_1_5: "[1..5] = [1, 2, 3, 4, (5::int)]"
  by code_simp

lemma parseInt_9: "parseInt ''9'' = Num 9"
  by code_simp

lemma acme_known: "CLIENTS_get acme_env ''acme'' = Some acme_cfg"
  by (simp add: CLIENTS_get_def acme_env_def)

lemma paths_of_two:
  "concat (map (variation_paths acme_cfg (hero_count 2)) [1..2]) =
     [''acme-tests/hero-cta/var-1.js'', ''acme-tests/hero-cta/var-1.css'',
      ''acme-tests/hero-cta/var-2.js'', ''acme-tests/hero-cta/var-2.css'']"
  by code_simp

lemma create_two_in_empty_store:
  "\<forall>ev \<in> set (snd (crp_create_commit acme_env empty_store (Some (hero_count 2)) nothing_typed)).
     \<not> failed ev"
  by code_simp

lemma create_one_in_read_only_store:
  "crp_create_commit acme_env read_only_store (Some (hero_count 1)) nothing_typed =
     (Inr (Ack_update (create_error_view (Request_error (Some 403) ''Forbidden''))),
      [Get (marker_request acme_env acme_cfg ''acme-tests/hero-cta/var-1.js'') (Inl not_found),
       Put (write_request acme_env acme_cfg ''acme-tests/hero-cta/var-1.js'' []
              ''CRP: create hero-cta (acme) -> acme-tests/hero-cta/var-1.js'' None)
         (Inl (Request_error (Some 403) ''Forbidden''))])"
  by code_simp

lemma trim_hero: "trim ''hero-cta'' = ''hero-cta''"
  by code_simp

lemma trim_blank: "trim ''  '' = []"
  by code_simp

lemma trim_empty: "trim [] = []"
  by code_simp

lemma submitted_client:
  "getStateValue (submitted (Some ''acme'') name) ''client_block'' ''client_select'' = Some ''acme''"
  by (simp add: getStateValue_def submitted_def)

lemma submitted_name:
  "str_or (getStateValue (submitted client (Some ''hero-cta'')) ''testname_block'' ''test_name'') []
     = ''hero-cta''"
  by (simp add: getStateValue_def submitted_def)

lemma update_index_9: "update_index (typed ''var_id'' ''val'' ''9'') = Num 9"
  by code_simp

lemma update_index_minus_3: "update_index (typed ''var_id'' ''val'' ''-3'') = Num (- 3)"
  by code_simp

lemma update_nine_in_empty_store:
  "\<forall>ev \<in> set (snd (crp_update_commit acme_env empty_store (Some hero_choice)
                       (typed ''var_id'' ''val'' ''9''))). \<not> failed ev"
  by code_simp

lemma update_minus_three_in_empty_store:
  "\<forall>ev \<in> set (snd (crp_update_commit acme_env empty_store (Some hero_choice)
                       (typed ''var_id'' ''val'' ''-3''))). \<not> failed ev"
  by code_simp

lemma acme_tests: "interpolate (testsPath acme_cfg) = ''acme-tests''"
  by (simp add: acme_cfg_def)

lemma hero_name: "testName hero_choice = ''hero-cta''"
  by (simp add: hero_choice_def)

lemma toString_9: "Number_toString (Num 9) = ''9''"
  by code_simp

lemma toString_minus_3: "Number_toString (Num (- 3)) = ''-3''"
  by code_simp

lemma decimal_1_to_5:
  "decimal 1 = ''1''" "decimal 2 = ''2''" "decimal 3 = ''3''" "decimal 4 = ''4''"
  "decimal 5 = ''5''"
  by code_simp+

lemma no_clients: "CLIENTS_get \<lparr>CLIENTS = [], DEFAULT_BRANCH = ''main''\<rparr> ''acme'' = None"
  by (simp add: CLIENTS_get_def Object_prototype_names_def)

text \<open>
  A client key that names an inherited property passes the check of the first dialog:
  the query goes out without owner and repository, for a path under \<^verbatim>\<open>undefined\<close>.
\<close>

lemma inherited_client_key:
  "crp_pick_client_test acme_env empty_store (submitted (Some ''constructor'') (Some ''hero-cta''))
     = (Ack_push (update_or_create_view ''constructor'' ''hero-cta'' False ''undefined/hero-cta''),
        [Get \<lparr>get_owner = None, get_repo = None, get_path = ''undefined/hero-cta'',
               get_ref = ''main''\<rparr> (Inl not_found)])"
  by code_simp

lemma double_to_string_2: "double_to_string 2 = ''2''"
  by code_simp

section \<open>The claims\<close>

text \<open>
  C5. Whatever is typed at the variation-count step, the count is between 1 and 5: 5
  when the text parses to more than 5 (or to Infinity), 1 when it parses to 0 or less or
  does not parse at all, the parsed number otherwise. The answer replaces the dialog by
  the snippet dialog, whose blocks are, for each variation \<open>i\<close> from 1 to the count in
  turn, a header \<^verbatim>\<open>Variation i\<close>, a multiline text field \<^verbatim>\<open>js_i\<close> and a multiline
  text field \<^verbatim>\<open>css_i\<close>, and which carries the count in its step state.
\<close>

theorem variation_count_clamped:
  fixes state :: view_state and m :: metadata
  defines "raw \<equiv> str_or (getStateValue state ''varcount_block'' ''var_count'') ''1''"
  shows "\<exists>c. 1 \<le> c \<and> c \<le> 5
           \<and> c = (case parseInt raw of NaN \<Rightarrow> 1 | PosInf \<Rightarrow> 5 | NegInf \<Rightarrow> 1
                   | Num n \<Rightarrow> if n \<le> 0 then 1 else if 5 < n then 5 else n)
           \<and> crp_collect_variation_count (Some m) state =
               Inr (Ack_update
                 \<lparr>callback_id = ''crp_create_commit'',
                  private_metadata =
                    Some \<lparr>clientKey = clientKey m, testName = testName m, exists = None,
                          count = Some c\<rparr>,
                  title = ''New Test Snippets'',
                  submit = Some ''Create'',
                  close = ''Cancel'',
                  blocks =
                    concat (map (\<lambda>i.
                      [Header (Plain_text (''Variation '' @ decimal i)),
                       Input (''js_'' @ decimal i) (Plain_text (''JS snippet '' @ decimal i))
                         (Plain_text_input ''val'' None None True),
                       Input (''css_'' @ decimal i) (Plain_text (''CSS snippet '' @ decimal i))
                         (Plain_text_input ''val'' None None True)]) [1..c])\<rparr>)"
proof -
  define c where "c = (case parseInt raw of NaN \<Rightarrow> 1 | PosInf \<Rightarrow> 5 | NegInf \<Rightarrow> 1
                       | Num n \<Rightarrow> if n \<le> 0 then 1 else if 5 < n then (5::int) else n)"
  have vc: "variation_count state = Num c"
    unfolding c_def raw_def by (rule variation_count_Num)
  have range: "1 \<le> c \<and> c \<le> 5"
    unfolding c_def by (cases "parseInt raw") auto
  have fields: "map variation_blocks [1..c]
      = map (\<lambda>i.
          [Header (Plain_text (''Variation '' @ decimal i)),
           Input (''js_'' @ decimal i) (Plain_text (''JS snippet '' @ decimal i))
             (Plain_text_input ''val'' None None True),
           Input (''css_'' @ decimal i) (Plain_text (''CSS snippet '' @ decimal i))
             (Plain_text_input ''val'' None None True)]) [1..c]"
  proof (rule map_cong [OF refl])
    fix i assume "i \<in> set [1..c]"
    with range have "0 \<le> i" "i < 2 ^ 53" by auto
    then have ts: "Number_toString (Num i) = decimal i" by (rule safe_integer_toString)
    show "variation_blocks i
      = [Header (Plain_text (''Variation '' @ decimal i)),
         Input (''js_'' @ decimal i) (Plain_text (''JS snippet '' @ decimal i))
           (Plain_text_input ''val'' None None True),
         Input (''css_'' @ decimal i) (Plain_text (''CSS snippet '' @ decimal i))
           (Plain_text_input ''val'' None None True)]"
      unfolding variation_blocks_def ts by (rule refl)
  qed
  have "crp_collect_variation_count (Some m) state =
               Inr (Ack_update
                 \<lparr>callback_id = ''crp_create_commit'',
                  private_metadata =
                    Some \<lparr>clientKey = clientKey m, testName = testName m, exists = None,
                          count = Some c\<rparr>,
                  title = ''New Test Snippets'',
                  submit = Some ''Create'',
                  close = ''Cancel'',
                  blocks = concat (map variation_blocks [1..c])\<rparr>)"
    by (simp add: crp_collect_variation_count_def vc push_blocks_eq)
  then have ans: "crp_collect_variation_count (Some m) state =
               Inr (Ack_update
                 \<lparr>callback_id = ''crp_create_commit'',
                  private_metadata =
                    Some \<lparr>clientKey = clientKey m, testName = testName m, exists = None,
                          count = Some c\<rparr>,
                  title = ''New Test Snippets'',
                  submit = Some ''Create'',
                  close = ''Cancel'',
                  blocks =
                    concat (map (\<lambda>i.
                      [Header (Plain_text (''Variation '' @ decimal i)),
                       Input (''js_'' @ decimal i) (Plain_text (''JS snippet '' @ decimal i))
                         (Plain_text_input ''val'' None None True),
                       Input (''css_'' @ decimal i) (Plain_text (''CSS snippet '' @ decimal i))
                         (Plain_text_input ''val'' None None True)]) [1..c])\<rparr>)"
    unfolding fields .
  show ?thesis
  proof (intro exI [of _ c] conjI)
    from range show "1 \<le> c" and "c \<le> 5" by simp_all
    show "c = (case parseInt raw of NaN \<Rightarrow> 1 | PosInf \<Rightarrow> 5 | NegInf \<Rightarrow> 1
                   | Num n \<Rightarrow> if n \<le> 0 then 1 else if 5 < n then 5 else n)"
      by (rule c_def)
    show "crp_collect_variation_count (Some m) state =
               Inr (Ack_update
                 \<lparr>callback_id = ''crp_create_commit'',
                  private_metadata =
                    Some \<lparr>clientKey = clientKey m, testName = testName m, exists = None,
                          count = Some c\<rparr>,
                  title = ''New Test Snippets'',
                  submit = Some ''Create'',
                  close = ''Cancel'',
                  blocks =
                    concat (map (\<lambda>i.
                      [Header (Plain_text (''Variation '' @ decimal i)),
                       Input (''js_'' @ decimal i) (Plain_text (''JS snippet '' @ decimal i))
                         (Plain_text_input ''val'' None None True),
                       Input (''css_'' @ decimal i) (Plain_text (''CSS snippet '' @ decimal i))
                         (Plain_text_input ''val'' None None True)]) [1..c])\<rparr>)"
      by (rule ans)
  qed
qed

theorem variation_count_nine:
  "crp_collect_variation_count (Some hero_choice) (typed ''varcount_block'' ''var_count'' ''9'') =
     Inr (Ack_update
       \<lparr>callback_id = ''crp_create_commit'',
        private_metadata =
          Some \<lparr>clientKey = ''acme'', testName = ''hero-cta'', exists = None, count = Some 5\<rparr>,
        title = ''New Test Snippets'',
        submit = Some ''Create'',
        close = ''Cancel'',
        blocks =
          [Header (Plain_text ''Variation 1''),
           Input ''js_1'' (Plain_text ''JS snippet 1'') (Plain_text_input ''val'' None None True),
           Input ''css_1'' (Plain_text ''CSS snippet 1'') (Plain_text_input ''val'' None None True),
           Header (Plain_text ''Variation 2''),
           Input ''js_2'' (Plain_text ''JS snippet 2'') (Plain_text_input ''val'' None None True),
           Input ''css_2'' (Plain_text ''CSS snippet 2'') (Plain_text_input ''val'' None None True),
           Header (Plain_text ''Variation 3''),
           Input ''js_3'' (Plain_text ''JS snippet 3'') (Plain_text_input ''val'' None None True),
           Input ''css_3'' (Plain_text ''CSS snippet 3'') (Plain_text_input ''val'' None None True),
           Header (Plain_text ''Variation 4''),
           Input ''js_4'' (Plain_text ''JS snippet 4'') (Plain_text_input ''val'' None None True),
           Input ''css_4'' (Plain_text ''CSS snippet 4'') (Plain_text_input ''val'' None None True),
           Header (Plain_text ''Variation 5''),
           Input ''js_5'' (Plain_text ''JS snippet 5'') (Plain_text_input ''val'' None None True),
           Input ''css_5'' (Plain_text ''CSS snippet 5'') (Plain_text_input ''val'' None None True)]\<rparr>)"
  using variation_count_clamped [of "typed ''varcount_block'' ''var_count'' ''9''" hero_choice]
  by (simp add: getStateValue_def typed_def parseInt_9 upto_1_5 hero_choice_def decimal_1_to_5)

text \<open>
  C4, as the code has it. For a client with a configuration (\<^verbatim>\<open>CLIENTS[clientKey]\<close>
  is defined) and a count \<open>N\<close>, the ops of the create flow are the \<open>2 * N\<close> paths \<^verbatim>\<open>var-1.js, var-1.css, ..., var-N.js, var-N.css\<close>
  under the test's directory. The writes issued target an initial part of this list, in
  this order; when no call fails they are the whole list. (The claim promises all
  \<open>2 * N\<close> writes for every submission; a call that fails ends the loop early.)
\<close>

theorem create_writes_in_order:
  fixes e :: env and oct :: octokit and m :: metadata and state :: view_state
    and cfg :: client_cfg and N :: int
  assumes "CLIENTS_get e (clientKey m) = Some cfg" and "count m = Some N" and "N < 2 ^ 53"
  defines "log \<equiv> snd (crp_create_commit e oct (Some m) state)"
  defines "paths \<equiv> concat (map (variation_paths cfg m) [1..N])"
  shows "length paths = 2 * nat N
         \<and> (\<exists>k \<le> 2 * nat N. map put_path (writes log) = take k paths)
         \<and> ((\<forall>ev \<in> set log. \<not> failed ev) \<longrightarrow> map put_path (writes log) = paths)"
proof -
  let ?ops = "concat (map (variation_ops cfg (testName m) state) [1..N])"
  from assms(1-3) obtain r l where
    tr: "create_trace e cfg m ?ops r l" and
    res: "crp_create_commit e oct (Some m) state =
       (Inr (Ack_update (case r of Inr u \<Rightarrow> created_view m | Inl err \<Rightarrow> create_error_view err)), l)"
    by (rule create_commit_trace)
  from res have l: "l = log" by (simp add: log_def)
  have p: "map op_path ?ops = paths"
    unfolding paths_def using assms(3) by (rule ops_paths)
  have len: "length paths = 2 * nat N"
    unfolding paths_def by (rule length_variation_paths)
  from create_trace_writes [OF tr] obtain k where
    "k \<le> length ?ops" "map put_path (writes l) = take k (map op_path ?ops)" by blast
  with p len l have pre: "\<exists>k \<le> 2 * nat N. map put_path (writes log) = take k paths"
    by (metis length_map)
  have all: "map put_path (writes log) = paths" if ok: "\<forall>ev \<in> set log. \<not> failed ev"
  proof (cases r)
    case (Inl err)
    from create_trace_failure [OF tr [unfolded Inl]]
    have "l \<noteq> []" "failed (last l)" by (simp_all add: failed_def)
    then have "\<exists>ev \<in> set l. failed ev" using last_in_set by blast
    with ok l show ?thesis by simp
  next
    case (Inr u)
    from create_trace_success [OF tr [unfolded Inr]] p l show ?thesis by simp
  qed
  from len pre all show ?thesis by blast
qed

theorem create_writes_in_order_witness:
  "CLIENTS_get acme_env (clientKey (hero_count 2)) = Some acme_cfg
   \<and> count (hero_count 2) = Some 2
   \<and> map put_path
        (writes (snd (crp_create_commit acme_env empty_store (Some (hero_count 2)) nothing_typed)))
      = [''acme-tests/hero-cta/var-1.js'', ''acme-tests/hero-cta/var-1.css'',
         ''acme-tests/hero-cta/var-2.js'', ''acme-tests/hero-cta/var-2.css'']"
proof -
  have h1: "CLIENTS_get acme_env (clientKey (hero_count 2)) = Some acme_cfg"
    by (simp add: hero_count_def acme_known)
  have h2: "count (hero_count 2) = Some 2"
    by (simp add: hero_count_def)
  have h3: "(2::int) < 2 ^ 53"
    by simp
  from create_writes_in_order [OF h1 h2 h3, of empty_store nothing_typed]
    create_two_in_empty_store
  have "map put_path
          (writes (snd (crp_create_commit acme_env empty_store (Some (hero_count 2)) nothing_typed)))
        = concat (map (variation_paths acme_cfg (hero_count 2)) [1..2])"
    by blast
  with h1 h2 show ?thesis by (simp only: paths_of_two simp_thms)
qed

text \<open>
  The claim fails where a call fails: with one variation and a store that refuses
  writes, one write is issued, not two.
\<close>

theorem create_writes_counterexample:
  "map put_path
     (writes (snd (crp_create_commit acme_env read_only_store (Some (hero_count 1)) nothing_typed)))
   = [''acme-tests/hero-cta/var-1.js'']
   \<and> length
     (writes (snd (crp_create_commit acme_env read_only_store (Some (hero_count 1)) nothing_typed)))
   \<noteq> 2 * nat 1"
  by (simp add: create_one_in_read_only_store write_request_def)

text \<open>
  C6. In the commit step of the create flow, a call that fails is the last call issued:
  every call before it succeeded, nothing follows it (so no later op is started and
  nothing undoes the earlier writes), and the writes issued are an initial part of the
  list of paths. The answer then replaces the dialog by the error dialog, titled
  \<^verbatim>\<open>Error\<close>, whose one section holds the message of the error thrown. When no call
  fails, every path was written and the answer replaces the dialog by the confirmation
  dialog, titled \<^verbatim>\<open>Created\<close> with a check mark, whose one section names the test, the
  client and the count. Both dialogs are terminal: their id \<^verbatim>\<open>noop\<close> names no
  handler, and they have no submit button, no field and no state.
\<close>

theorem create_commit_stops_at_failure:
  fixes e :: env and oct :: octokit and m :: metadata and state :: view_state
    and cfg :: client_cfg and N :: int
  assumes "CLIENTS_get e (clientKey m) = Some cfg" and "count m = Some N" and "N < 2 ^ 53"
  defines "answer \<equiv> fst (crp_create_commit e oct (Some m) state)"
  defines "log \<equiv> snd (crp_create_commit e oct (Some m) state)"
  defines "paths \<equiv> concat (map (variation_paths cfg m) [1..N])"
  shows "(\<forall>ev \<in> set (butlast log). \<not> failed ev)
         \<and> (\<exists>k \<le> 2 * nat N. map put_path (writes log) = take k paths)
         \<and> (if \<exists>ev \<in> set log. failed ev
            then \<exists>err. thrown (last log) = Some err
                   \<and> answer = Inr (Ack_update (create_error_view err))
                   \<and> state_of (create_error_view err) = Terminal
                   \<and> (\<exists>pre post. blocks (create_error_view err)
                                     = [Section (Mrkdwn (pre @ message err @ post))])
                   \<and> create_error_view err
                       = \<lparr>callback_id = ''noop'', private_metadata = None, title = ''Error'',
                          submit = None, close = ''Close'',
                          blocks =
                            [Section (Mrkdwn
                               ([CHR 0xE2, CHR 0x9D, CHR 0x8C] @ '' GitHub error creating files:''
                                @ [CHR 0x0A] @ ''`'' @ message err @ ''`''))]\<rparr>
            else answer = Inr (Ack_update (created_view m))
                   \<and> state_of (created_view m) = Terminal
                   \<and> map put_path (writes log) = paths
                   \<and> created_view m
                       = \<lparr>callback_id = ''noop'', private_metadata = None,
                          title = ''Created '' @ [CHR 0xE2, CHR 0x9C, CHR 0x85],
                          submit = None, close = ''Close'',
                          blocks =
                            [Section (Mrkdwn
                               (''Created *'' @ testName m @ ''* for *'' @ clientKey m
                                @ ''* with '' @ Number_toString (Num N)
                                @ '' variation(s).''))]\<rparr>)"
proof -
  let ?ops = "concat (map (variation_ops cfg (testName m) state) [1..N])"
  from assms(1-3) obtain r l where
    tr: "create_trace e cfg m ?ops r l" and
    res: "crp_create_commit e oct (Some m) state =
       (Inr (Ack_update (case r of Inr u \<Rightarrow> created_view m | Inl err \<Rightarrow> create_error_view err)), l)"
    by (rule create_commit_trace)
  from res have l: "l = log" by (simp add: log_def)
  have p: "map op_path ?ops = paths"
    unfolding paths_def using assms(3) by (rule ops_paths)
  have len: "length ?ops = 2 * nat N"
    using p length_variation_paths [of cfg m N] by (metis length_map paths_def)
  from create_trace_writes [OF tr] p len l
  have pre: "\<exists>k \<le> 2 * nat N. map put_path (writes log) = take k paths"
    by auto
  show ?thesis
  proof (cases r)
    case (Inl err)
    from create_trace_failure [OF tr [unfolded Inl]] l
    have f: "log \<noteq> []" "thrown (last log) = Some err" "\<forall>ev \<in> set (butlast log). \<not> failed ev"
      by simp_all
    then have "failed (last log)" by (simp add: failed_def)
    with f(1) have ex: "\<exists>ev \<in> set log. failed ev" using last_in_set by blast
    from res Inl have a: "answer = Inr (Ack_update (create_error_view err))"
      by (simp add: answer_def)
    have t: "state_of (create_error_view err) = Terminal"
      by (simp add: state_of_def create_error_view_def)
    have v: "create_error_view err
               = \<lparr>callback_id = ''noop'', private_metadata = None, title = ''Error'',
                  submit = None, close = ''Close'',
                  blocks =
                    [Section (Mrkdwn
                       ([CHR 0xE2, CHR 0x9D, CHR 0x8C] @ '' GitHub error creating files:''
                        @ [CHR 0x0A] @ ''`'' @ message err @ ''`''))]\<rparr>"
      by (simp add: create_error_view_def cross_mark_def)
    have "blocks (create_error_view err)
            = [Section (Mrkdwn ((cross_mark @ '' GitHub error creating files:'' @ [CHR 0x0A] @ ''`'')
                                @ message err @ ''`''))]"
      by (simp add: create_error_view_def)
    then have b: "\<exists>pre post. blocks (create_error_view err)
                                     = [Section (Mrkdwn (pre @ message err @ post))]"
      by blast
    from f(2) a t b v
    have "\<exists>err. thrown (last log) = Some err
                   \<and> answer = Inr (Ack_update (create_error_view err))
                   \<and> state_of (create_error_view err) = Terminal
                   \<and> (\<exists>pre post. blocks (create_error_view err)
                                     = [Section (Mrkdwn (pre @ message err @ post))])
                   \<and> create_error_view err
                       = \<lparr>callback_id = ''noop'', private_metadata = None, title = ''Error'',
                          submit = None, close = ''Close'',
                          blocks =
                            [Section (Mrkdwn
                               ([CHR 0xE2, CHR 0x9D, CHR 0x8C] @ '' GitHub error creating files:''
                                @ [CHR 0x0A] @ ''`'' @ message err @ ''`''))]\<rparr>"
      by (intro exI [of _ err] conjI)
    with f(3) pre ex show ?thesis by (simp only: if_True simp_thms)
  next
    case (Inr u)
    from create_trace_success [OF tr [unfolded Inr]] p l
    have s: "map put_path (writes log) = paths" "\<forall>ev \<in> set log. \<not> failed ev"
      by simp_all
    then have bl: "\<forall>ev \<in> set (butlast log). \<not> failed ev"
      by (meson in_set_butlastD)
    from s(2) have nex: "\<not> (\<exists>ev \<in> set log. failed ev)"
      by blast
    from res Inr have a: "answer = Inr (Ack_update (created_view m))"
      by (simp add: answer_def)
    have t: "state_of (created_view m) = Terminal"
      by (simp add: state_of_def created_view_def)
    have v: "created_view m
               = \<lparr>callback_id = ''noop'', private_metadata = None,
                  title = ''Created '' @ [CHR 0xE2, CHR 0x9C, CHR 0x85],
                  submit = None, close = ''Close'',
                  blocks =
                    [Section (Mrkdwn
                       (''Created *'' @ testName m @ ''* for *'' @ clientKey m
                        @ ''* with '' @ Number_toString (Num N)
                        @ '' variation(s).''))]\<rparr>"
      by (simp add: created_view_def check_mark_def count_text_def assms(2))
    from bl pre nex a t s(1) v show ?thesis by (simp only: if_False simp_thms)
  qed
qed

theorem create_commit_stops_at_failure_witness:
  "CLIENTS_get acme_env (clientKey (hero_count 1)) = Some acme_cfg
   \<and> count (hero_count 1) = Some 1
   \<and> fst (crp_create_commit acme_env read_only_store (Some (hero_count 1)) nothing_typed)
      = Inr (Ack_update
          \<lparr>callback_id = ''noop'', private_metadata = None, title = ''Error'',
           submit = None, close = ''Close'',
           blocks =
             [Section (Mrkdwn
                ([CHR 0xE2, CHR 0x9D, CHR 0x8C] @ '' GitHub error creating files:''
                 @ [CHR 0x0A] @ ''`Forbidden`''))]\<rparr>)
   \<and> fst (crp_create_commit acme_env empty_store (Some (hero_count 2)) nothing_typed)
      = Inr (Ack_update
          \<lparr>callback_id = ''noop'', private_metadata = None,
           title = ''Created '' @ [CHR 0xE2, CHR 0x9C, CHR 0x85],
           submit = None, close = ''Close'',
           blocks =
             [Section (Mrkdwn ''Created *hero-cta* for *acme* with 2 variation(s).'')]\<rparr>)"
proof -
  let ?log = "snd (crp_create_commit acme_env read_only_store (Some (hero_count 1)) nothing_typed)"
  let ?log2 = "snd (crp_create_commit acme_env empty_store (Some (hero_count 2)) nothing_typed)"
  have h1: "CLIENTS_get acme_env (clientKey (hero_count 1)) = Some acme_cfg"
    by (simp add: hero_count_def acme_known)
  have h2: "count (hero_count 1) = Some 1"
    by (simp add: hero_count_def)
  have h3: "(1::int) < 2 ^ 53"
    by simp
  have g1: "CLIENTS_get acme_env (clientKey (hero_count 2)) = Some acme_cfg"
    by (simp add: hero_count_def acme_known)
  have g2: "count (hero_count 2) = Some 2"
    by (simp add: hero_count_def)
  have g3: "(2::int) < 2 ^ 53"
    by simp
  have f: "\<exists>ev \<in> set ?log. failed ev"
    by (simp add: create_one_in_read_only_store failed_def)
  have l: "thrown (last ?log) = Some (Request_error (Some 403) ''Forbidden'')"
    by (simp add: create_one_in_read_only_store)
  from create_commit_stops_at_failure [OF h1 h2 h3, of read_only_store nothing_typed] f
  obtain err where "thrown (last ?log) = Some err"
    "fst (crp_create_commit acme_env read_only_store (Some (hero_count 1)) nothing_typed)
       = Inr (Ack_update (create_error_view err))"
    "create_error_view err
       = \<lparr>callback_id = ''noop'', private_metadata = None, title = ''Error'',
          submit = None, close = ''Close'',
          blocks =
            [Section (Mrkdwn
               ([CHR 0xE2, CHR 0x9D, CHR 0x8C] @ '' GitHub error creating files:''
                @ [CHR 0x0A] @ ''`'' @ message err @ ''`''))]\<rparr>"
    by auto
  with l have failure:
    "fst (crp_create_commit acme_env read_only_store (Some (hero_count 1)) nothing_typed)
      = Inr (Ack_update
          \<lparr>callback_id = ''noop'', private_metadata = None, title = ''Error'',
           submit = None, close = ''Close'',
           blocks =
             [Section (Mrkdwn
                ([CHR 0xE2, CHR 0x9D, CHR 0x8C] @ '' GitHub error creating files:''
                 @ [CHR 0x0A] @ ''`Forbidden`''))]\<rparr>)"
    by simp
  from create_two_in_empty_store have nf: "\<not> (\<exists>ev \<in> set ?log2. failed ev)"
    by blast
  from create_commit_stops_at_failure [OF g1 g2 g3, of empty_store nothing_typed] nf
  have "fst (crp_create_commit acme_env empty_store (Some (hero_count 2)) nothing_typed)
          = Inr (Ack_update (created_view (hero_count 2)))"
    and "created_view (hero_count 2)
          = \<lparr>callback_id = ''noop'', private_metadata = None,
             title = ''Created '' @ [CHR 0xE2, CHR 0x9C, CHR 0x85],
             submit = None, close = ''Close'',
             blocks =
               [Section (Mrkdwn
                  (''Created *'' @ testName (hero_count 2) @ ''* for *'' @ clientKey (hero_count 2)
                   @ ''* with '' @ Number_toString (Num 2) @ '' variation(s).''))]\<rparr>"
    by (simp_all only: if_False simp_thms)
  then have success:
    "fst (crp_create_commit acme_env empty_store (Some (hero_count 2)) nothing_typed)
      = Inr (Ack_update
          \<lparr>callback_id = ''noop'', private_metadata = None,
           title = ''Created '' @ [CHR 0xE2, CHR 0x9C, CHR 0x85],
           submit = None, close = ''Close'',
           blocks =
             [Section (Mrkdwn ''Created *hero-cta* for *acme* with 2 variation(s).'')]\<rparr>)"
    by (simp add: hero_count_def double_to_string_2)
  from h1 h2 failure success show ?thesis by (intro conjI)
qed

text \<open>
  C3. Every write that the create flow or the update flow issues comes after a marker
  query for the same file (same owner, repository, path and branch) in the same handler
  run, and its precondition is the marker that query fetched: none when the marker is
  null, exactly the marker otherwise.
\<close>

theorem writes_use_fetched_markers:
  "markers_used [] (snd (crp_create_commit e oct md state))
   \<and> markers_used [] (snd (crp_update_commit e oct md state))"
proof
  show "markers_used [] (snd (crp_create_commit e oct md state))"
  proof (cases md)
    case None
    then show ?thesis by (simp add: crp_create_commit_def)
  next
    case (Some m)
    show ?thesis
    proof (cases "create_ops e m state")
      case (Inl err)
      with Some show ?thesis by (simp add: crp_create_commit_def)
    next
      case (Inr p)
      obtain c ops where p: "p = (c, ops)" by (cases p)
      show ?thesis
      proof (cases c)
        case None
        with Some Inr p show ?thesis by (simp add: crp_create_commit_def)
      next
        case (Some cfg)
        obtain r log where w: "write_ops e oct cfg m ops [] = (r, log)"
          by (cases "write_ops e oct cfg m ops []")
        from write_ops_trace [OF w] have "markers_used [] log"
          by (auto intro: create_trace_markers)
        with w \<open>md = Some m\<close> Inr p Some show ?thesis
          by (simp add: crp_create_commit_def split: sum.splits)
      qed
    qed
  qed
next
  show "markers_used [] (snd (crp_update_commit e oct md state))"
  proof (cases md)
    case None
    then show ?thesis by (simp add: crp_update_commit_def)
  next
    case (Some m)
    show ?thesis
    proof (cases "CLIENTS_get e (clientKey m)")
      case None
      with Some show ?thesis by (simp add: crp_update_commit_def)
    next
      case cfg: (Some cfg)
      let ?u = "update_writes e oct cfg m (update_index state)
                  (str_or (getStateValue state ''u_js'' ''val'') [])
                  (str_or (getStateValue state ''u_css'' ''val'') [])"
      have "snd (crp_update_commit e oct md state) = snd ?u"
        using Some cfg by (simp add: crp_update_commit_def Let_def split: prod.splits sum.splits)
      then show ?thesis by (simp add: update_writes_markers)
    qed
  qed
qed

theorem writes_use_fetched_markers_witness:
  "markers_used []
     (snd (crp_create_commit acme_env full_store (Some (hero_count 1)) nothing_typed))
   \<and> map put_sha
        (writes (snd (crp_create_commit acme_env full_store (Some (hero_count 1)) nothing_typed)))
      = [Some ''abc123'', Some ''abc123'']
   \<and> map put_sha
        (writes (snd (crp_update_commit acme_env empty_store (Some hero_choice) nothing_typed)))
      = [None, None]"
proof -
  have "map put_sha
        (writes (snd (crp_create_commit acme_env full_store (Some (hero_count 1)) nothing_typed)))
      = [Some ''abc123'', Some ''abc123'']"
    by code_simp
  moreover have "map put_sha
        (writes (snd (crp_update_commit acme_env empty_store (Some hero_choice) nothing_typed)))
      = [None, None]"
    by code_simp
  ultimately show ?thesis
    using writes_use_fetched_markers
      [of acme_env full_store "Some (hero_count 1)" nothing_typed]
    by simp
qed

text \<open>
  C7. After a valid submission of the first dialog (a client picked for which
  \<^verbatim>\<open>CLIENTS[clientKey]\<close> is defined, a test name that is not blank) whose marker query
  does not throw,
  the query was for the path \<^verbatim>\<open>testsPath/testName\<close>, the choice dialog is pushed, and
  the existence flag in its step state is true exactly when the marker is not null. The
  marker is null exactly for a 404 and for data without a (non-empty) sha; a directory
  gives the sentinel \<^verbatim>\<open>DIR\<close>, hence true. "Create New" is always offered, "Update
  Existing" exactly when the flag is true.
\<close>

theorem existence_flag:
  fixes e :: env and oct :: octokit and state :: view_state
    and k t :: string and cfg :: client_cfg and sha :: "string option"
  defines "dirPath \<equiv> interpolate (testsPath cfg) @ ''/'' @ t"
  defines "res \<equiv> getContent oct [] (marker_request e cfg dirPath)"
  assumes "getStateValue state ''client_block'' ''client_select'' = Some k"
    and "trim (str_or (getStateValue state ''testname_block'' ''test_name'') []) = t" and "t \<noteq> []"
    and "CLIENTS_get e k = Some cfg"
    and "marker_of res = Inr sha"
  shows "\<exists>v. crp_pick_client_test e oct state = (Ack_push v, [Get (marker_request e cfg dirPath) res])
           \<and> get_path (marker_request e cfg dirPath) = interpolate (testsPath cfg) @ ''/'' @ t
           \<and> private_metadata v
               = Some \<lparr>clientKey = k, testName = t, exists = Some (sha \<noteq> None), count = None\<rparr>
           \<and> state_of v = AwaitingChoice
           \<and> blocks v ! 1
               = Actions ''choice_block''
                   (Button (Plain_text ''Create New'') ''create'' ''choose_create''
                    # (if sha \<noteq> None
                       then [Button (Plain_text ''Update Existing'') ''update'' ''choose_update'']
                       else []))
           \<and> (sha = None) = (res = Inr No_data \<or> res = Inr (Object_data None)
                               \<or> res = Inr (Object_data (Some []))
                               \<or> (\<exists>err. res = Inl err \<and> status err = Some 404))
           \<and> marker_of (Inr Array_data) = Inr (Some ''DIR'')"
proof -
  let ?v = "update_or_create_view k t (sha \<noteq> None) dirPath"
  have "crp_pick_client_test e oct state = (Ack_push ?v, [Get (marker_request e cfg dirPath) res])"
    using crp_pick_client_test_valid [OF assms(3-6), of oct] assms(7)
    by (simp add: dirPath_def res_def)
  moreover have "get_path (marker_request e cfg dirPath) = interpolate (testsPath cfg) @ ''/'' @ t"
    by (simp add: marker_request_def dirPath_def)
  moreover have "private_metadata ?v
               = Some \<lparr>clientKey = k, testName = t, exists = Some (sha \<noteq> None), count = None\<rparr>"
    by (simp add: update_or_create_view_def)
  moreover have "state_of ?v = AwaitingChoice"
    by (simp add: update_or_create_view_def state_of_def)
  moreover have "blocks ?v ! 1
               = Actions ''choice_block''
                   (Button (Plain_text ''Create New'') ''create'' ''choose_create''
                    # (if sha \<noteq> None
                       then [Button (Plain_text ''Update Existing'') ''update'' ''choose_update'']
                       else []))"
    by (simp add: update_or_create_view_def)
  moreover have "(sha = None) = (res = Inr No_data \<or> res = Inr (Object_data None)
                               \<or> res = Inr (Object_data (Some []))
                               \<or> (\<exists>err. res = Inl err \<and> status err = Some 404))"
    using assms(7)
    by (auto simp: marker_of_def
        split: sum.splits content_data.splits option.splits list.splits if_splits)
  moreover have "marker_of (Inr Array_data) = Inr (Some ''DIR'')"
    by (simp add: marker_of_def)
  ultimately show ?thesis by blast
qed

theorem existence_flag_witness:
  "carried (fst (crp_pick_client_test acme_env dir_store
                   (submitted (Some ''acme'') (Some ''hero-cta''))))
     = Some \<lparr>clientKey = ''acme'', testName = ''hero-cta'', exists = Some True, count = None\<rparr>
   \<and> carried (fst (crp_pick_client_test acme_env empty_store
                   (submitted (Some ''acme'') (Some ''hero-cta''))))
     = Some \<lparr>clientKey = ''acme'', testName = ''hero-cta'', exists = Some False, count = None\<rparr>"
proof -
  let ?state = "submitted (Some ''acme'') (Some ''hero-cta'')"
  have h1: "getStateValue ?state ''client_block'' ''client_select'' = Some ''acme''"
    by (rule submitted_client)
  have h2: "trim (str_or (getStateValue ?state ''testname_block'' ''test_name'') []) = ''hero-cta''"
    by (simp only: submitted_name trim_hero)
  have h3: "''hero-cta'' \<noteq> []"
    by simp
  have d: "marker_of (getContent dir_store []
             (marker_request acme_env acme_cfg (interpolate (testsPath acme_cfg) @ ''/'' @ ''hero-cta'')))
           = Inr (Some ''DIR'')"
    by (simp add: dir_store_def marker_of_def)
  have n: "marker_of (getContent empty_store []
             (marker_request acme_env acme_cfg (interpolate (testsPath acme_cfg) @ ''/'' @ ''hero-cta'')))
           = Inr None"
    by (simp add: empty_store_def marker_of_def not_found_def)
  from existence_flag [OF h1 h2 h3 acme_known d]
  have "carried (fst (crp_pick_client_test acme_env dir_store ?state))
     = Some \<lparr>clientKey = ''acme'', testName = ''hero-cta'', exists = Some True, count = None\<rparr>"
    by (auto simp: carried_def)
  moreover from existence_flag [OF h1 h2 h3 acme_known n]
  have "carried (fst (crp_pick_client_test acme_env empty_store ?state))
     = Some \<lparr>clientKey = ''acme'', testName = ''hero-cta'', exists = Some False, count = None\<rparr>"
    by (auto simp: carried_def)
  ultimately show ?thesis by simp
qed

text \<open>
  C8. After a valid submission of the first dialog whose marker query throws (any error
  but a 404), the answer replaces the dialog by the result dialog with the message of the
  error; that dialog is terminal and has no submit button, the query is the only call
  issued, and no dialog in the choice state is shown.
\<close>

theorem check_failure_is_terminal:
  fixes e :: env and oct :: octokit and state :: view_state
    and k t :: string and cfg :: client_cfg and err :: request_error
  defines "dirPath \<equiv> interpolate (testsPath cfg) @ ''/'' @ t"
  defines "res \<equiv> getContent oct [] (marker_request e cfg dirPath)"
  assumes "getStateValue state ''client_block'' ''client_select'' = Some k"
    and "trim (str_or (getStateValue state ''testname_block'' ''test_name'') []) = t" and "t \<noteq> []"
    and "CLIENTS_get e k = Some cfg"
    and "marker_of res = Inl err"
  shows "crp_pick_client_test e oct state
           = (Ack_update (check_failed_view err), [Get (marker_request e cfg dirPath) res])
         \<and> state_of (check_failed_view err) = Terminal
         \<and> submit (check_failed_view err) = None
         \<and> (\<exists>pre post. blocks (check_failed_view err)
                           = [Section (Mrkdwn (pre @ message err @ post))])
         \<and> (\<forall>v. shown (fst (crp_pick_client_test e oct state)) = Some v
                  \<longrightarrow> state_of v \<noteq> AwaitingChoice)"
proof -
  have r: "crp_pick_client_test e oct state
           = (Ack_update (check_failed_view err), [Get (marker_request e cfg dirPath) res])"
    using crp_pick_client_test_valid [OF assms(3-6), of oct] assms(7)
    by (simp add: dirPath_def res_def)
  have t: "state_of (check_failed_view err) = Terminal"
    by (simp add: state_of_def check_failed_view_def)
  have s: "submit (check_failed_view err) = None"
    by (simp add: check_failed_view_def)
  have "blocks (check_failed_view err)
          = [Section (Mrkdwn ((cross_mark @ '' GitHub check failed:'' @ [CHR 0x0A] @ ''`'')
                              @ message err @ ''`''))]"
    by (simp add: check_failed_view_def)
  then have b: "\<exists>pre post. blocks (check_failed_view err)
                           = [Section (Mrkdwn (pre @ message err @ post))]"
    by blast
  from r t have n: "\<forall>v. shown (fst (crp_pick_client_test e oct state)) = Some v
                  \<longrightarrow> state_of v \<noteq> AwaitingChoice"
    by simp
  from r t s b n show ?thesis by blast
qed

theorem check_failure_is_terminal_witness:
  "crp_pick_client_test acme_env broken_store (submitted (Some ''acme'') (Some ''hero-cta''))
     = (Ack_update (check_failed_view (Request_error (Some 500) ''Server Error'')),
        [Get (marker_request acme_env acme_cfg ''acme-tests/hero-cta'')
           (Inl (Request_error (Some 500) ''Server Error''))])"
proof -
  let ?state = "submitted (Some ''acme'') (Some ''hero-cta'')"
  have h1: "getStateValue ?state ''client_block'' ''client_select'' = Some ''acme''"
    by (rule submitted_client)
  have h2: "trim (str_or (getStateValue ?state ''testname_block'' ''test_name'') []) = ''hero-cta''"
    by (simp only: submitted_name trim_hero)
  have h3: "''hero-cta'' \<noteq> []"
    by simp
  have b: "marker_of (getContent broken_store []
             (marker_request acme_env acme_cfg (interpolate (testsPath acme_cfg) @ ''/'' @ ''hero-cta'')))
           = Inl (Request_error (Some 500) ''Server Error'')"
    by (simp add: broken_store_def marker_of_def)
  from check_failure_is_terminal [OF h1 h2 h3 acme_known b] show ?thesis
    by (simp add: acme_cfg_def broken_store_def)
qed

text \<open>
  C9, as the code has it. With \<open>k\<close> the client read from the form (null when nothing is
  picked) and \<open>t\<close> the test name read from the form and trimmed: when \<open>k\<close> is null or \<open>t\<close>
  is empty, the answer annotates the client field if \<open>k\<close> is null and the test-name field
  if \<open>t\<close> is empty, and no other; when both are there and \<^verbatim>\<open>CLIENTS[k]\<close> is undefined
  (\<open>k\<close> is neither a key of the configuration nor one of the names every object
  inherits), it annotates the client field only. Either way no dialog is shown in place
  of the first one and no call is issued. (The claim annotates only empty fields; a test
  name of white space is not empty and is annotated. What happens for an inherited name
  is not part of this statement.)
\<close>

theorem validation_errors:
  fixes e :: env and oct :: octokit and state :: view_state
  defines "k \<equiv> getStateValue state ''client_block'' ''client_select''"
  defines "t \<equiv> trim (str_or (getStateValue state ''testname_block'' ''test_name'') [])"
  shows "(k = None \<or> t = [] \<longrightarrow>
            crp_pick_client_test e oct state
              = (Ack_errors
                   ((if k = None then [(''client_block'', ''Please select a client.'')] else [])
                    @ (if t = [] then [(''testname_block'', ''Please enter a test name.'')] else [])),
                 []))
         \<and> (\<forall>c. k = Some c \<and> t \<noteq> [] \<and> CLIENTS_get e c = None \<longrightarrow>
            crp_pick_client_test e oct state
              = (Ack_errors [(''client_block'', ''Unknown client in configuration.'')], []))"
  by (auto simp: crp_pick_client_test_def Let_def k_def t_def split: option.splits)

theorem validation_errors_witness:
  "crp_pick_client_test acme_env empty_store nothing_typed
     = (Ack_errors [(''client_block'', ''Please select a client.''),
                    (''testname_block'', ''Please enter a test name.'')], [])
   \<and> crp_pick_client_test \<lparr>CLIENTS = [], DEFAULT_BRANCH = ''main''\<rparr> empty_store
        (submitted (Some ''acme'') (Some ''hero-cta''))
     = (Ack_errors [(''client_block'', ''Unknown client in configuration.'')], [])"
proof -
  let ?state = "submitted (Some ''acme'') (Some ''hero-cta'')"
  have e1: "getStateValue nothing_typed ''client_block'' ''client_select'' = None"
    by (simp add: getStateValue_def nothing_typed_def)
  have e2: "trim (str_or (getStateValue nothing_typed ''testname_block'' ''test_name'') []) = []"
    by (simp add: getStateValue_def nothing_typed_def trim_empty)
  have h1: "getStateValue ?state ''client_block'' ''client_select'' = Some ''acme''"
    by (rule submitted_client)
  have h2: "trim (str_or (getStateValue ?state ''testname_block'' ''test_name'') []) = ''hero-cta''"
    by (simp only: submitted_name trim_hero)
  from validation_errors [of nothing_typed acme_env empty_store] e1 e2
  have "crp_pick_client_test acme_env empty_store nothing_typed
     = (Ack_errors [(''client_block'', ''Please select a client.''),
                    (''testname_block'', ''Please enter a test name.'')], [])"
    by simp
  moreover
  from validation_errors [of ?state "\<lparr>CLIENTS = [], DEFAULT_BRANCH = ''main''\<rparr>" empty_store]
    h1 h2 no_clients
  have "crp_pick_client_test \<lparr>CLIENTS = [], DEFAULT_BRANCH = ''main''\<rparr> empty_store ?state
     = (Ack_errors [(''client_block'', ''Unknown client in configuration.'')], [])"
    by simp
  ultimately show ?thesis by simp
qed

text \<open>
  The claim fails on a test name of white space: with no client picked and two spaces
  typed as the name, the field of the name is not empty and is annotated all the same.
\<close>

theorem validation_errors_counterexample:
  "getStateValue (submitted None (Some ''  '')) ''testname_block'' ''test_name'' = Some ''  ''
   \<and> crp_pick_client_test acme_env empty_store (submitted None (Some ''  ''))
     = (Ack_errors [(''client_block'', ''Please select a client.''),
                    (''testname_block'', ''Please enter a test name.'')], [])"
  by (simp add: crp_pick_client_test_def getStateValue_def submitted_def trim_blank)

text \<open>
  C10. In the update flow, when the index field parses to an integer \<open>v\<close>, whatever its
  size or sign, the writes issued target \<^verbatim>\<open>var-v.js\<close> and then \<^verbatim>\<open>var-v.css\<close> under
  the test's directory, \<open>v\<close> printed as JavaScript prints the number: they are an initial
  part of this pair, and the whole pair when no call fails. For \<open>v\<close> between \<open>- 2 ^ 53\<close>
  and \<open>2 ^ 53\<close> the number prints as its decimal numeral.
\<close>

theorem update_index_unclamped:
  fixes e :: env and oct :: octokit and m :: metadata and state :: view_state
    and cfg :: client_cfg and v :: int
  assumes "CLIENTS_get e (clientKey m) = Some cfg" and "update_index state = Num v"
  defines "log \<equiv> snd (crp_update_commit e oct (Some m) state)"
  defines "var \<equiv> interpolate (testsPath cfg) @ ''/'' @ testName m @ ''/var-'' @ Number_toString (Num v)"
  shows "(\<exists>k \<le> 2. map put_path (writes log) = take k [var @ ''.js'', var @ ''.css''])
         \<and> ((\<forall>ev \<in> set log. \<not> failed ev) \<longrightarrow>
              map put_path (writes log) = [var @ ''.js'', var @ ''.css''])
         \<and> (- (2 ^ 53) < v \<and> v < 2 ^ 53 \<longrightarrow>
              Number_toString (Num v) = (if v < 0 then CHR ''-'' # decimal (- v) else decimal v))"
proof -
  let ?js = "str_or (getStateValue state ''u_js'' ''val'') []"
  let ?css = "str_or (getStateValue state ''u_css'' ''val'') []"
  have l: "log = snd (update_writes e oct cfg m (Num v) ?js ?css)"
    by (simp add: log_def crp_update_commit_unfold [OF assms(1)] assms(2) split: prod.splits sum.splits)
  have p: "jsPath cfg m (Num v) = var @ ''.js''" "cssPath cfg m (Num v) = var @ ''.css''"
    by (simp_all add: jsPath_def cssPath_def var_def)
  have s: "Number_toString (Num v) = (if v < 0 then CHR ''-'' # decimal (- v) else decimal v)"
    if "- (2 ^ 53) < v \<and> v < 2 ^ 53"
  proof (cases "v < 0")
    case True
    with that have "- v < 2 ^ 53" by simp
    with True show ?thesis by (simp add: safe_double_to_string)
  next
    case False
    with that show ?thesis by (simp add: safe_double_to_string)
  qed
  from update_writes_paths [of e oct cfg m "Num v" ?js ?css] s show ?thesis
    unfolding l [symmetric] p by blast
qed

theorem update_index_unclamped_witness:
  "update_index (typed ''var_id'' ''val'' ''9'') = Num 9
   \<and> map put_path (writes (snd (crp_update_commit acme_env empty_store (Some hero_choice)
                                   (typed ''var_id'' ''val'' ''9''))))
     = [''acme-tests/hero-cta/var-9.js'', ''acme-tests/hero-cta/var-9.css'']
   \<and> update_index (typed ''var_id'' ''val'' ''-3'') = Num (- 3)
   \<and> map put_path (writes (snd (crp_update_commit acme_env empty_store (Some hero_choice)
                                   (typed ''var_id'' ''val'' ''-3''))))
     = [''acme-tests/hero-cta/var--3.js'', ''acme-tests/hero-cta/var--3.css'']"
proof -
  have h: "CLIENTS_get acme_env (clientKey hero_choice) = Some acme_cfg"
    by (simp add: hero_choice_def acme_known)
  from update_index_unclamped [OF h update_index_9, of empty_store] update_nine_in_empty_store
  have "map put_path (writes (snd (crp_update_commit acme_env empty_store (Some hero_choice)
                                   (typed ''var_id'' ''val'' ''9''))))
     = [(interpolate (testsPath acme_cfg) @ ''/'' @ testName hero_choice @ ''/var-'' @ Number_toString (Num 9))
          @ ''.js'',
        (interpolate (testsPath acme_cfg) @ ''/'' @ testName hero_choice @ ''/var-'' @ Number_toString (Num 9))
          @ ''.css'']"
    by blast
  then have nine: "map put_path (writes (snd (crp_update_commit acme_env empty_store
                      (Some hero_choice) (typed ''var_id'' ''val'' ''9''))))
     = [''acme-tests/hero-cta/var-9.js'', ''acme-tests/hero-cta/var-9.css'']"
    by (simp only: toString_9 acme_tests hero_name append.simps)
  from update_index_unclamped [OF h update_index_minus_3, of empty_store]
    update_minus_three_in_empty_store
  have "map put_path (writes (snd (crp_update_commit acme_env empty_store (Some hero_choice)
                                   (typed ''var_id'' ''val'' ''-3''))))
     = [(interpolate (testsPath acme_cfg) @ ''/'' @ testName hero_choice @ ''/var-''
           @ Number_toString (Num (- 3))) @ ''.js'',
        (interpolate (testsPath acme_cfg) @ ''/'' @ testName hero_choice @ ''/var-''
           @ Number_toString (Num (- 3))) @ ''.css'']"
    by blast
  then have minus: "map put_path (writes (snd (crp_update_commit acme_env empty_store
                      (Some hero_choice) (typed ''var_id'' ''val'' ''-3''))))
     = [''acme-tests/hero-cta/var--3.js'', ''acme-tests/hero-cta/var--3.css'']"
    by (simp only: toString_minus_3 acme_tests hero_name append.simps)
  from nine minus show ?thesis
    by (simp only: update_index_9 update_index_minus_3 simp_thms)
qed

text \<open>
  C1. The index of the update flow is \<^verbatim>\<open>parseInt(field || '1', 10)\<close>: the default 1
  stands in for an empty field only. A field that is not empty and does not parse gives
  NaN, and the two files written are \<^verbatim>\<open>var-NaN.js\<close> and \<^verbatim>\<open>var-NaN.css\<close>.
\<close>

theorem update_index_not_defaulted:
  "update_index nothing_typed = Num 1
   \<and> update_index (typed ''var_id'' ''val'' ''abc'') = NaN
   \<and> map put_path (writes (snd (crp_update_commit acme_env empty_store (Some hero_choice)
                                   (typed ''var_id'' ''val'' ''abc''))))
     = [''acme-tests/hero-cta/var-NaN.js'', ''acme-tests/hero-cta/var-NaN.css'']"
  by code_simp

text \<open>
  C2, as the code has it. Until the flow terminates, every transition after step 1
  attaches a step state with the client identifier and the test name to the dialog it
  shows: the two choice transitions attach the state they received, unchanged (existence
  flag included); the variation-count transition attaches a new state with the client
  identifier and the test name of the old one and the count, and without the existence
  flag. The two commit transitions terminate the flow: whatever they answer is a
  \<^verbatim>\<open>noop\<close> dialog with no state. (The claim keeps the existence flag in every state
  before termination.)
\<close>

theorem step_state_carried:
  fixes e :: env and oct :: octokit and md :: "metadata option" and m :: metadata
    and state :: view_state
  shows "state_of (choose_create md) = AwaitingVariationCount
         \<and> private_metadata (choose_create md) = md
         \<and> (\<forall>v. choose_update e md = Inr v \<longrightarrow>
               state_of v = AwaitingUpdateSnippets \<and> private_metadata v = md)
         \<and> (\<exists>c v. crp_collect_variation_count (Some m) state = Inr (Ack_update v)
                \<and> state_of v = AwaitingCreateSnippets
                \<and> private_metadata v
                    = Some \<lparr>clientKey = clientKey m, testName = testName m,
                            exists = None, count = Some c\<rparr>)
         \<and> (\<forall>a. fst (crp_create_commit e oct md state) = Inr a \<longrightarrow>
               (\<exists>v. a = Ack_update v \<and> callback_id v = ''noop'' \<and> state_of v = Terminal
                    \<and> private_metadata v = None))
         \<and> (\<forall>a. fst (crp_update_commit e oct md state) = Inr a \<longrightarrow>
               (\<exists>v. a = Ack_update v \<and> callback_id v = ''noop'' \<and> state_of v = Terminal
                    \<and> private_metadata v = None))"
proof (intro conjI)
  show "state_of (choose_create md) = AwaitingVariationCount"
    by (simp add: choose_create_def state_of_def)
  show "private_metadata (choose_create md) = md"
    by (simp add: choose_create_def)
  show "\<forall>v. choose_update e md = Inr v \<longrightarrow>
               state_of v = AwaitingUpdateSnippets \<and> private_metadata v = md"
    by (auto simp: choose_update_def Let_def state_of_def split: option.splits)
  show "\<exists>c v. crp_collect_variation_count (Some m) state = Inr (Ack_update v)
                \<and> state_of v = AwaitingCreateSnippets
                \<and> private_metadata v
                    = Some \<lparr>clientKey = clientKey m, testName = testName m,
                            exists = None, count = Some c\<rparr>"
    by (simp add: crp_collect_variation_count_def variation_count_Num state_of_def)
  show "\<forall>a. fst (crp_create_commit e oct md state) = Inr a \<longrightarrow>
               (\<exists>v. a = Ack_update v \<and> callback_id v = ''noop'' \<and> state_of v = Terminal
                    \<and> private_metadata v = None)"
  proof (intro allI impI)
    fix a assume "fst (crp_create_commit e oct md state) = Inr a"
    from create_commit_answer [OF this]
    show "\<exists>v. a = Ack_update v \<and> callback_id v = ''noop'' \<and> state_of v = Terminal
                    \<and> private_metadata v = None"
      by (auto simp: result_dialogs_noop noop_terminal)
  qed
  show "\<forall>a. fst (crp_update_commit e oct md state) = Inr a \<longrightarrow>
               (\<exists>v. a = Ack_update v \<and> callback_id v = ''noop'' \<and> state_of v = Terminal
                    \<and> private_metadata v = None)"
  proof (intro allI impI)
    fix a assume "fst (crp_update_commit e oct md state) = Inr a"
    from update_commit_answer [OF this]
    show "\<exists>v. a = Ack_update v \<and> callback_id v = ''noop'' \<and> state_of v = Terminal
                    \<and> private_metadata v = None"
      by (auto simp: result_dialogs_noop noop_terminal)
  qed
qed

theorem step_state_carried_witness:
  "private_metadata (choose_create (Some hero_choice)) = Some hero_choice
   \<and> map_sum id private_metadata (choose_update acme_env (Some hero_choice))
       = Inr (Some hero_choice)
   \<and> map_sum id carried
        (fst (crp_create_commit acme_env empty_store (Some (hero_count 2)) nothing_typed))
       = Inr None"
proof -
  obtain v where v: "choose_update acme_env (Some hero_choice) = Inr v"
    by (simp add: choose_update_def hero_choice_def acme_known)
  from step_state_carried [of "Some hero_choice" acme_env hero_choice nothing_typed empty_store] v
  have c: "private_metadata (choose_create (Some hero_choice)) = Some hero_choice"
    and u: "private_metadata v = Some hero_choice"
    by blast+
  from step_state_carried
    [of "Some (hero_count 2)" acme_env hero_choice nothing_typed empty_store] create_two_answer
  have "private_metadata (created_view (hero_count 2)) = None"
    by blast
  then have "carried (Ack_update (created_view (hero_count 2))) = None"
    by (simp add: carried_def)
  with c u v show ?thesis by (simp add: create_two_answer)
qed

text \<open>
  The claim fails at the variation-count transition: the state that came in has the
  existence flag, the state attached to the snippet dialog does not.
\<close>

theorem step_state_counterexample:
  "exists hero_choice = Some True
   \<and> map_sum id carried (crp_collect_variation_count (Some hero_choice) nothing_typed)
       = Inr (Some \<lparr>clientKey = ''acme'', testName = ''hero-cta'', exists = None,
                    count = Some 1\<rparr>)"
  by code_simp

end
